theory Spec2Isabelle
  imports Main "HOL-Library.AList" "HOL-Library.Sublist" "HOL-Library.Word"
begin

section \<open>Decoded documents\<close>

text \<open>
  A decoded manifest is Go's \<open>map[string]interface{}\<close> as the JSON decoder of
  \<open>unstructured.Unstructured\<close> fills it: null, booleans, \<open>int64\<close>, \<open>float64\<close>,
  strings, slices and nested maps. A map is kept as an association list read with
  \<open>map_of\<close> and written with \<open>AList.update\<close>. No operation of the two commands
  inspects a float, so a float is kept as its literal text.
\<close>

datatype jvalue =
    JNull
  | JBool bool
  | JInt "64 word"
  | JFloat string
  | JString string
  | JList "jvalue list"
  | JMap "(string \<times> jvalue) list"

type_synonym obj = "(string \<times> jvalue) list"

text \<open>
  The errors of a run: the one \<open>SetNestedField\<close> reports (with the path up to the
  offending field), a message made with \<open>errors.New\<close>, an error handed back by a
  collaborator (reading standard input, decoding, \<open>yaml.Marshal\<close>, writing standard
  output, \<open>SetMPConfiguration\<close>), and a runtime panic.
\<close>

datatype error =
    NotAMap "string list"
  | ErrorsNew string
  | External string
  | Panic string

section \<open>The nested-field helpers of \<open>unstructured\<close>\<close>

text \<open>
  Modelled from the spec: \<open>unstructured.SetNestedField\<close>, \<open>SetNestedMap\<close>,
  \<open>NestedFieldNoCopy\<close> and \<open>GetKind\<close> belong to \<open>k8s.io/apimachinery\<close> and are not
  among the source files. Section 4.1 of the specification gives the contract of the write:
  every intermediate segment must resolve to a mapping, a missing one is created, the last
  segment is overwritten with the value (replacing any prior value and its subtree), and
  an intermediate segment that holds anything but a mapping is an error. The first
  argument accumulates the path walked so far, for the error. The library slices
  \<open>fields[:len(fields)-1]\<close>, which panics on an empty path.
\<close>

fun setNestedFieldNoCopy :: "string list \<Rightarrow> obj \<Rightarrow> jvalue \<Rightarrow> string list \<Rightarrow> error + obj" where
  "setNestedFieldNoCopy pre m v [] = Inl (Panic ''slice bounds out of range'')"
| "setNestedFieldNoCopy pre m v [f] = Inr (AList.update f v m)"
| "setNestedFieldNoCopy pre m v (f # g # fs) =
     (case map_of m f of
        None \<Rightarrow>
          (case setNestedFieldNoCopy (pre @ [f]) [] v (g # fs) of
             Inl e \<Rightarrow> Inl e
           | Inr newVal \<Rightarrow> Inr (AList.update f (JMap newVal) m))
      | Some (JMap valMap) \<Rightarrow>
          (case setNestedFieldNoCopy (pre @ [f]) valMap v (g # fs) of
             Inl e \<Rightarrow> Inl e
           | Inr valMap' \<Rightarrow> Inr (AList.update f (JMap valMap') m))
      | Some _ \<Rightarrow> Inl (NotAMap (pre @ [f])))"

definition SetNestedField :: "obj \<Rightarrow> jvalue \<Rightarrow> string list \<Rightarrow> error + obj" where
  "SetNestedField m v fields = setNestedFieldNoCopy [] m v fields"

definition SetNestedMap :: "obj \<Rightarrow> obj \<Rightarrow> string list \<Rightarrow> error + obj" where
  "SetNestedMap m v fields = SetNestedField m (JMap v) fields"

fun NestedFieldNoCopy :: "obj \<Rightarrow> string list \<Rightarrow> jvalue option" where
  "NestedFieldNoCopy m [] = Some (JMap m)"
| "NestedFieldNoCopy m [f] = map_of m f"
| "NestedFieldNoCopy m (f # g # fs) =
     (case map_of m f of
        Some (JMap valMap) \<Rightarrow> NestedFieldNoCopy valMap (g # fs)
      | _ \<Rightarrow> None)"

definition GetKind :: "obj \<Rightarrow> string" where
  "GetKind m = (case map_of m ''kind'' of Some (JString s) \<Rightarrow> s | _ \<Rightarrow> '''')"

section \<open>capa.go\<close>

definition awsManagedControlPlane :: string where
  "awsManagedControlPlane = ''AWSManagedControlPlane''"

definition awsManagedMachinePool :: string where
  "awsManagedMachinePool = ''AWSManagedMachinePool''"

definition machinePool :: string where
  "machinePool = ''MachinePool''"

definition cluster :: string where
  "cluster = ''Cluster''"

definition controlplaneRoleAnnotation :: string where
  "controlplaneRoleAnnotation = ''eks.amazonaws.com/controlplane-role''"

definition managedCPCIDR :: "obj \<Rightarrow> string \<Rightarrow> error + obj" where
  "managedCPCIDR ri vpcCidr' =
     (let netcfg = [(''vpc'', JMap [(''cidrBlock'', JString vpcCidr')])]
      in SetNestedMap ri netcfg [''spec'', ''network''])"

definition managedCPRole :: "obj \<Rightarrow> string \<Rightarrow> error + obj" where
  "managedCPRole ri roleName = SetNestedField ri (JString roleName) [''spec'', ''roleName'']"

definition managedMPScaling :: "obj \<Rightarrow> 64 word \<Rightarrow> 64 word \<Rightarrow> error + obj" where
  "managedMPScaling ri minNodeCount maxNodeCount =
     (let scaling = [(''minSize'', JInt minNodeCount), (''maxSize'', JInt maxNodeCount)]
      in SetNestedMap ri scaling [''spec'', ''scaling''])"

definition managedMPRole :: "obj \<Rightarrow> string \<Rightarrow> error + obj" where
  "managedMPRole ri roleName = SetNestedField ri (JString roleName) [''spec'', ''roleName'']"

definition clusterAnnotations :: "obj \<Rightarrow> string \<Rightarrow> error + obj" where
  "clusterAnnotations ri managedControlplaneRole' =
     SetNestedField ri (JString managedControlplaneRole')
       [''metadata'', ''annotations'', controlplaneRoleAnnotation]"

text \<open>
  \<open>isFound\<close> is a Go \<open>map[string]bool\<close>: reading a key that was never stored gives
  \<open>false\<close>.
\<close>

definition found :: "(string \<rightharpoonup> bool) \<Rightarrow> string \<Rightarrow> bool" where
  "found m k = (case m k of Some b \<Rightarrow> b | None \<Rightarrow> False)"

record validationHelper =
  isFound :: "string \<rightharpoonup> bool"
  managedControlplaneRole :: string
  managedMachinepoolRole :: string
  vpcCidr :: string
  minCount :: "64 word"
  maxCount :: "64 word"

text \<open>
  \<open>validation\<close> is a sequence of \<open>if ... return\<close> statements: the first check that
  fails decides the error, and \<open>None\<close> is Go's \<open>nil\<close>. \<open>orElse a b\<close> is "return
  \<open>a\<close> if it is an error, otherwise go on with \<open>b\<close>". The counts are \<open>int64\<close>, compared
  as signed numbers.
\<close>

definition orElse :: "error option \<Rightarrow> error option \<Rightarrow> error option" where
  "orElse a b = (case a of Some e \<Rightarrow> Some e | None \<Rightarrow> b)"

definition validation :: "validationHelper \<Rightarrow> error option" where
  "validation helper =
     orElse
       (if \<not> found (isFound helper) awsManagedControlPlane then
          orElse
            (if vpcCidr helper \<noteq> ''''
             then Some (ErrorsNew ''failed to get AWSManagedControlPlane for cidr update'')
             else None)
            (if managedControlplaneRole helper \<noteq> ''''
             then Some (ErrorsNew ''failed to get AWSManagedControlPlane for role configuration'')
             else None)
        else None)
    (orElse
       (if sint (minCount helper) > sint (maxCount helper)
        then Some (ErrorsNew ''max node count can't be less than min node count'')
        else None)
    (orElse
       (if managedMachinepoolRole helper \<noteq> ''''
           \<and> \<not> found (isFound helper) awsManagedMachinePool
        then Some (ErrorsNew ''failed to get AWSManagedMachinePool for role configuration'')
        else None)
       (if \<not> found (isFound helper) cluster \<and> managedControlplaneRole helper \<noteq> ''''
        then Some (ErrorsNew ''failed to get ControlPlane to update annotations'')
        else None)))"

section \<open>The collaborators and the command-line flags\<close>

text \<open>
  What a run takes from outside the two files: the result of \<open>io.ReadAll(os.Stdin)\<close>;
  the decoder inside \<open>parser.ProcessResources\<close>, as the documents it hands to the
  callback, in order, and the error it stops with, if any; \<open>SetMPConfiguration\<close>, a
  function of this package that is not among the source files; \<open>yaml.Marshal\<close>; and
  \<open>os.Stdout.Write\<close>, which either writes the whole buffer (\<open>None\<close>) or fails after
  some number of bytes.
\<close>

record env =
  readAll :: "error + string"
  decode :: "string \<Rightarrow> obj list \<times> error option"
  SetMPConfiguration :: "obj \<Rightarrow> 64 word \<Rightarrow> 64 word \<Rightarrow> error + obj"
  marshal :: "obj \<Rightarrow> error + string"
  stdoutWrite :: "string \<Rightarrow> (nat \<times> error) option"

text \<open>
  The flags of \<open>capa\<close>: \<open>--vpc-cidr\<close>, \<open>--managedcp-role\<close>, \<open>--managedmp-role\<close>,
  \<open>--min-node-count\<close> and \<open>--max-node-count\<close>, with the defaults the command registers.
\<close>

record flags =
  vpc_cidr :: string
  managedcp_role :: string
  managedmp_role :: string
  min_node_count :: "64 word"
  max_node_count :: "64 word"

definition defaultFlags :: flags where
  "defaultFlags =
     \<lparr>vpc_cidr = '''', managedcp_role = '''', managedmp_role = '''',
      min_node_count = 1, max_node_count = 6\<rparr>"

section \<open>\<open>parser.ProcessResources\<close>\<close>

text \<open>
  Modelled from the spec: \<open>parser.ProcessResources\<close> belongs to
  \<open>kmodules.xyz/client-go\<close> and is not among the source files. Sections 4.5 and 6 of
  the specification give what the commands rely on: the input is decoded into an ordered
  sequence of documents, the callback is called on each, in order, and the first failure,
  of the decoder or of the callback, ends the loop and is returned. The documents of the
  decoder are those it decodes before its error, if it has one. The state \<open>'s\<close> is what
  the callback's closure mutates.
\<close>

fun processEach :: "(obj \<Rightarrow> 's \<Rightarrow> error option \<times> 's) \<Rightarrow> obj list \<Rightarrow> 's \<Rightarrow> error option \<times> 's" where
  "processEach fn [] s = (None, s)"
| "processEach fn (ri # ris) s =
     (case fn ri s of
        (Some e, s') \<Rightarrow> (Some e, s')
      | (None, s') \<Rightarrow> processEach fn ris s')"

definition ProcessResources ::
  "(string \<Rightarrow> obj list \<times> error option) \<Rightarrow> string \<Rightarrow> (obj \<Rightarrow> 's \<Rightarrow> error option \<times> 's) \<Rightarrow> 's
     \<Rightarrow> error option \<times> 's" where
  "ProcessResources dec data fn s =
     (case dec data of
        (ris, derr) \<Rightarrow>
          (case processEach fn ris s of
             (Some e, s') \<Rightarrow> (Some e, s')
           | (None, s') \<Rightarrow> (derr, s')))"

section \<open>Writing a document to the buffer, and the buffer to standard output\<close>

text \<open>
  The tail of both callbacks: marshal the object, write the separator when the buffer
  already holds something, then the data. \<open>bytes.Buffer.Write\<close> returns no error.
\<close>

definition separator :: string where
  "separator = ''---'' @ [CHR 0x0A]"

definition appendDocument :: "string \<Rightarrow> string \<Rightarrow> string" where
  "appendDocument out data = (if length out > 0 then out @ separator else out) @ data"

definition writeDocument :: "(obj \<Rightarrow> error + string) \<Rightarrow> obj \<Rightarrow> string \<Rightarrow> error + string" where
  "writeDocument mar ri out =
     (case mar ri of
        Inl err \<Rightarrow> Inl err
      | Inr data \<Rightarrow> Inr (appendDocument out data))"

text \<open>The result of a run: the error returned by \<open>RunE\<close> and the bytes on standard output.\<close>

definition osStdoutWrite :: "env \<Rightarrow> string \<Rightarrow> error option \<times> string" where
  "osStdoutWrite e out =
     (case stdoutWrite e out of
        None \<Rightarrow> (None, out)
      | Some (n, err) \<Rightarrow> (Some err, take n out))"

section \<open>The \<open>capa\<close> command\<close>

text \<open>
  The four \<open>if\<close> blocks of the callback, in the order of the source. Each one stores
  its kind in \<open>isFound\<close> before it edits, so the entry stays when the edit fails.
\<close>

definition visitControlPlane :: "flags \<Rightarrow> obj \<Rightarrow> (string \<rightharpoonup> bool) \<Rightarrow> (error + obj) \<times> (string \<rightharpoonup> bool)" where
  "visitControlPlane fl ri fnd =
     (if GetKind ri = awsManagedControlPlane then
        (case (if vpc_cidr fl \<noteq> '''' then managedCPCIDR ri (vpc_cidr fl) else Inr ri) of
           Inl e \<Rightarrow> (Inl e, fnd(awsManagedControlPlane \<mapsto> True))
         | Inr ri1 \<Rightarrow>
             (if managedcp_role fl \<noteq> '''' then managedCPRole ri1 (managedcp_role fl) else Inr ri1,
              fnd(awsManagedControlPlane \<mapsto> True)))
      else (Inr ri, fnd))"

definition visitMachinePool :: "env \<Rightarrow> flags \<Rightarrow> obj \<Rightarrow> (string \<rightharpoonup> bool) \<Rightarrow> (error + obj) \<times> (string \<rightharpoonup> bool)" where
  "visitMachinePool e fl ri fnd =
     (if GetKind ri = machinePool then
        (SetMPConfiguration e ri (min_node_count fl) (max_node_count fl), fnd(machinePool \<mapsto> True))
      else (Inr ri, fnd))"

definition visitManagedMachinePool :: "flags \<Rightarrow> obj \<Rightarrow> (string \<rightharpoonup> bool) \<Rightarrow> (error + obj) \<times> (string \<rightharpoonup> bool)" where
  "visitManagedMachinePool fl ri fnd =
     (if GetKind ri = awsManagedMachinePool then
        (case managedMPScaling ri (min_node_count fl) (max_node_count fl) of
           Inl e \<Rightarrow> (Inl e, fnd(awsManagedMachinePool \<mapsto> True))
         | Inr ri1 \<Rightarrow>
             (if managedmp_role fl \<noteq> '''' then managedMPRole ri1 (managedmp_role fl) else Inr ri1,
              fnd(awsManagedMachinePool \<mapsto> True)))
      else (Inr ri, fnd))"

definition visitCluster :: "flags \<Rightarrow> obj \<Rightarrow> (string \<rightharpoonup> bool) \<Rightarrow> (error + obj) \<times> (string \<rightharpoonup> bool)" where
  "visitCluster fl ri fnd =
     (if GetKind ri = cluster then
        (clusterAnnotations ri (managedcp_role fl), fnd(cluster \<mapsto> True))
      else (Inr ri, fnd))"

definition capaEdits :: "env \<Rightarrow> flags \<Rightarrow> obj \<Rightarrow> (string \<rightharpoonup> bool) \<Rightarrow> (error + obj) \<times> (string \<rightharpoonup> bool)" where
  "capaEdits e fl ri fnd =
     (case visitControlPlane fl ri fnd of
        (Inl err, f1) \<Rightarrow> (Inl err, f1)
      | (Inr r1, f1) \<Rightarrow>
     (case visitMachinePool e fl r1 f1 of
        (Inl err, f2) \<Rightarrow> (Inl err, f2)
      | (Inr r2, f2) \<Rightarrow>
     (case visitManagedMachinePool fl r2 f2 of
        (Inl err, f3) \<Rightarrow> (Inl err, f3)
      | (Inr r3, f3) \<Rightarrow> visitCluster fl r3 f3)))"

text \<open>
  The callback given to \<open>ProcessResources\<close>. Its closure holds \<open>isFound\<close>, created by
  \<open>NewCmdCAPA\<close>, and the buffer \<open>out\<close>, created by \<open>RunE\<close>.
\<close>

definition capaResourceFn ::
  "env \<Rightarrow> flags \<Rightarrow> obj \<Rightarrow> (string \<rightharpoonup> bool) \<times> string \<Rightarrow> error option \<times> ((string \<rightharpoonup> bool) \<times> string)" where
  "capaResourceFn e fl ri s =
     (case s of (fnd, out) \<Rightarrow>
        (case capaEdits e fl ri fnd of
           (Inl err, fnd') \<Rightarrow> (Some err, (fnd', out))
         | (Inr ri', fnd') \<Rightarrow>
             (case writeDocument (marshal e) ri' out of
                Inl err \<Rightarrow> (Some err, (fnd', out))
              | Inr out' \<Rightarrow> (None, (fnd', out')))))"

text \<open>
  \<open>RunE\<close> of the command, from the \<open>isFound\<close> map its closure holds. It returns the
  error of the run, the bytes written to standard output, and the map as the run leaves it.
\<close>

definition capaRunE ::
  "env \<Rightarrow> flags \<Rightarrow> (string \<rightharpoonup> bool) \<Rightarrow> (error option \<times> string) \<times> (string \<rightharpoonup> bool)" where
  "capaRunE e fl fnd =
     (case readAll e of
        Inl err \<Rightarrow> ((Some err, []), fnd)
      | Inr inp \<Rightarrow>
          (case ProcessResources (decode e) inp (capaResourceFn e fl) (fnd, []) of
             (Some err, (fnd', out)) \<Rightarrow> ((Some err, []), fnd')
           | (None, (fnd', out)) \<Rightarrow>
               (case validation
                       \<lparr>isFound = fnd',
                        managedControlplaneRole = managedcp_role fl,
                        managedMachinepoolRole = managedmp_role fl,
                        vpcCidr = vpc_cidr fl,
                        minCount = min_node_count fl,
                        maxCount = max_node_count fl\<rparr> of
                  Some err \<Rightarrow> ((Some err, []), fnd')
                | None \<Rightarrow> (osStdoutWrite e out, fnd'))))"

text \<open>
  One execution of the program: \<open>NewCmdCAPA\<close> makes the command with an empty
  \<open>isFound\<close>, and \<open>RunE\<close> runs once.
\<close>

definition NewCmdCAPA :: "string \<rightharpoonup> bool" where
  "NewCmdCAPA = Map.empty"

definition runCAPA :: "env \<Rightarrow> flags \<Rightarrow> error option \<times> string" where
  "runCAPA e fl = fst (capaRunE e fl NewCmdCAPA)"

section \<open>capk.go\<close>

definition setBootstrapCheckStrategy :: "obj \<Rightarrow> error + obj" where
  "setBootstrapCheckStrategy ri =
     SetNestedField ri (JString ''none'')
       [''spec'', ''template'', ''spec'', ''virtualMachineBootstrapCheck'', ''checkStrategy'']"

definition capkEdits :: "obj \<Rightarrow> error + obj" where
  "capkEdits ri =
     (if GetKind ri = ''KubevirtMachineTemplate'' then setBootstrapCheckStrategy ri else Inr ri)"

definition capkResourceFn :: "env \<Rightarrow> obj \<Rightarrow> string \<Rightarrow> error option \<times> string" where
  "capkResourceFn e ri out =
     (case capkEdits ri of
        Inl err \<Rightarrow> (Some err, out)
      | Inr ri' \<Rightarrow>
          (case writeDocument (marshal e) ri' out of
             Inl err \<Rightarrow> (Some err, out)
           | Inr out' \<Rightarrow> (None, out')))"

definition runCAPK :: "env \<Rightarrow> error option \<times> string" where
  "runCAPK e =
     (case readAll e of
        Inl err \<Rightarrow> (Some err, [])
      | Inr inp \<Rightarrow>
          (case ProcessResources (decode e) inp (capkResourceFn e) [] of
             (Some err, out) \<Rightarrow> (Some err, [])
           | (None, out) \<Rightarrow> osStdoutWrite e out))"

section \<open>The reassembled stream, as the specification words it\<close>

text \<open>
  Section 4.4 of the specification: the encodings joined by the separator, with no
  separator before the first one.
\<close>

fun joinDocuments :: "string list \<Rightarrow> string" where
  "joinDocuments [] = []"
| "joinDocuments [b] = b"
| "joinDocuments (b # c # bs) = b @ separator @ joinDocuments (c # bs)"

section \<open>Example documents and collaborators\<close>

text \<open>Small manifests of the kinds the two commands look for.\<close>

definition cpDoc :: obj where
  "cpDoc =
     [(''kind'', JString ''AWSManagedControlPlane''),
      (''metadata'', JMap [(''name'', JString ''cp''), (''namespace'', JString ''default'')]),
      (''spec'', JMap [(''region'', JString ''us-east-1''),
                       (''network'', JMap [(''cni'', JMap [(''cniIngressRules'', JList [])]),
                                           (''vpc'', JMap [(''id'', JString ''vpc-1'')])])])]"

definition ampDoc :: obj where
  "ampDoc =
     [(''kind'', JString ''AWSManagedMachinePool''),
      (''metadata'', JMap [(''name'', JString ''pool''), (''namespace'', JString ''default'')]),
      (''spec'', JMap [(''instanceType'', JString ''t3.large''),
                       (''scaling'', JMap [(''minSize'', JInt 3), (''maxSize'', JInt 4),
                                           (''keep'', JBool True)])])]"

definition mpDoc :: obj where
  "mpDoc =
     [(''kind'', JString ''MachinePool''),
      (''metadata'', JMap [(''name'', JString ''mp''), (''namespace'', JString ''default'')]),
      (''spec'', JMap [(''replicas'', JInt 1)])]"

definition clusterDoc :: obj where
  "clusterDoc =
     [(''kind'', JString ''Cluster''),
      (''metadata'', JMap [(''name'', JString ''c''), (''namespace'', JString ''default'')])]"

definition configMapDoc :: obj where
  "configMapDoc =
     [(''kind'', JString ''ConfigMap''),
      (''metadata'', JMap [(''name'', JString ''cm''), (''namespace'', JString ''default'')]),
      (''data'', JMap [(''spec'', JString ''x'')])]"

definition kvDoc :: obj where
  "kvDoc =
     [(''kind'', JString ''KubevirtMachineTemplate''),
      (''metadata'', JMap [(''name'', JString ''kv''), (''namespace'', JString ''default'')]),
      (''spec'', JMap [(''template'', JMap [(''spec'', JMap [(''virtualMachineBootstrapCheck'',
                          JMap [(''checkStrategy'', JString ''ssh'')])])])])]"

text \<open>Two manifests whose \<open>spec\<close> holds a string where the edits expect a mapping.\<close>

definition badKvDoc :: obj where
  "badKvDoc =
     [(''kind'', JString ''KubevirtMachineTemplate''),
      (''spec'', JString ''scalar'')]"

definition badCpDoc :: obj where
  "badCpDoc =
     [(''kind'', JString ''AWSManagedControlPlane''),
      (''spec'', JString ''scalar'')]"

text \<open>
  A managed machine pool whose \<open>spec\<close> is a string, and a cluster whose
  \<open>metadata.annotations\<close> is a string.
\<close>

definition badAmpDoc :: obj where
  "badAmpDoc =
     [(''kind'', JString ''AWSManagedMachinePool''),
      (''spec'', JString ''scalar'')]"

definition badClusterDoc :: obj where
  "badClusterDoc =
     [(''kind'', JString ''Cluster''),
      (''metadata'', JMap [(''name'', JString ''c''), (''annotations'', JString ''scalar'')])]"

text \<open>
  Modelled from the spec: \<open>SetMPConfiguration\<close> is a function of this package that is
  not among the source files. The scenario of section 8 of the specification says that
  the \<open>MachinePool\<close> document "gains a scaling sub-structure {min, max}"; it names no
  path, and the sub-structure is put at the top of the document here. It is used in the
  examples only.
\<close>

definition specSetMPConfiguration :: "obj \<Rightarrow> 64 word \<Rightarrow> 64 word \<Rightarrow> error + obj" where
  "specSetMPConfiguration ri minNodeCount maxNodeCount =
     SetNestedMap ri [(''min'', JInt minNodeCount), (''max'', JInt maxNodeCount)] [''scaling'']"

text \<open>
  An encoder that prints the kind of a document on one line, a decoder that knows a few
  inputs (the last one breaks off with an error after its first document), and the
  environment made of them, with a standard output that accepts every write.
\<close>

definition exampleMarshal :: "obj \<Rightarrow> error + string" where
  "exampleMarshal ri = Inr (''kind: '' @ GetKind ri @ [CHR 0x0A])"

definition exampleDecode :: "string \<Rightarrow> obj list \<times> error option" where
  "exampleDecode data =
     (if data = ''cluster-only'' then ([clusterDoc], None)
      else if data = ''cp-and-cluster'' then ([cpDoc, clusterDoc], None)
      else if data = ''kubevirt'' then ([configMapDoc, kvDoc], None)
      else if data = ''bad-kubevirt'' then ([configMapDoc, badKvDoc, kvDoc], None)
      else if data = ''bad-cp'' then ([clusterDoc, badCpDoc], None)
      else if data = ''bad-pool'' then ([configMapDoc, badAmpDoc], None)
      else if data = ''bad-cluster'' then ([badClusterDoc, clusterDoc], None)
      else if data = ''plain'' then ([configMapDoc, configMapDoc], None)
      else if data = ''pools'' then ([configMapDoc, ampDoc], None)
      else if data = ''machinepool-and-cluster'' then ([mpDoc, clusterDoc], None)
      else if data = ''broken'' then ([clusterDoc], Some (External ''yaml: did not find expected key''))
      else ([], None))"

definition exampleEnv :: "string \<Rightarrow> env" where
  "exampleEnv data =
     \<lparr>readAll = Inr data,
      decode = exampleDecode,
      SetMPConfiguration = specSetMPConfiguration,
      marshal = exampleMarshal,
      stdoutWrite = (\<lambda>out. None)\<rparr>"

section \<open>Unfolding the definitions on concrete inputs\<close>

lemmas kind_defs = awsManagedControlPlane_def awsManagedMachinePool_def machinePool_def cluster_def
  controlplaneRoleAnnotation_def

lemmas edit_defs = managedCPCIDR_def managedCPRole_def managedMPScaling_def managedMPRole_def
  clusterAnnotations_def setBootstrapCheckStrategy_def SetNestedMap_def SetNestedField_def
  specSetMPConfiguration_def

lemmas visit_defs = capaEdits_def visitControlPlane_def visitMachinePool_def
  visitManagedMachinePool_def visitCluster_def capkEdits_def GetKind_def

lemmas run_defs = capaRunE_def runCAPA_def runCAPK_def NewCmdCAPA_def ProcessResources_def
  capaResourceFn_def capkResourceFn_def writeDocument_def appendDocument_def osStdoutWrite_def
  separator_def
  validation_def orElse_def found_def

lemmas example_defs = exampleEnv_def exampleDecode_def exampleMarshal_def
  cpDoc_def ampDoc_def mpDoc_def clusterDoc_def configMapDoc_def kvDoc_def badKvDoc_def badCpDoc_def
  badAmpDoc_def badClusterDoc_def
  defaultFlags_def

lemmas eval_defs = kind_defs edit_defs visit_defs run_defs example_defs

section \<open>Facts about the nested-field helpers\<close>

lemma setNested_frame:
  "setNestedFieldNoCopy pre m v (f # fs) = Inr m' \<Longrightarrow> k \<noteq> f \<Longrightarrow> map_of m' k = map_of m k"
  by (cases fs) (auto simp: update_conv' split: option.splits jvalue.splits sum.splits)

lemma setNested_get:
  "fs \<noteq> [] \<Longrightarrow> setNestedFieldNoCopy pre m v fs = Inr m' \<Longrightarrow> NestedFieldNoCopy m' fs = Some v"
  by (induction pre m v fs arbitrary: m' rule: setNestedFieldNoCopy.induct)
     (auto simp: update_conv' split: option.splits jvalue.splits sum.splits)

lemma setNested_blocked:
  "0 < n \<Longrightarrow> n < length fs \<Longrightarrow> NestedFieldNoCopy m (take n fs) = Some x \<Longrightarrow> (\<forall>y. x \<noteq> JMap y)
   \<Longrightarrow> setNestedFieldNoCopy pre m v fs = Inl (NotAMap (pre @ take n fs))"
proof (induction pre m v fs arbitrary: n rule: setNestedFieldNoCopy.induct)
  case (1 pre m v)
  then show ?case by simp
next
  case (2 pre m v f)
  then show ?case by simp
next
  case (3 pre m v f g fs)
  show ?case
  proof (cases n)
    case 0
    with 3 show ?thesis by simp
  next
    case (Suc k)
    show ?thesis
    proof (cases k)
      case 0
      with Suc 3 show ?thesis by (auto split: option.splits jvalue.splits)
    next
      case (Suc j)
      with \<open>n = Suc k\<close> "3.prems" obtain valMap where
        mf: "map_of m f = Some (JMap valMap)" and
        sub: "NestedFieldNoCopy valMap (take (Suc j) (g # fs)) = Some x"
        by (auto split: option.splits jvalue.splits)
      from Suc \<open>n = Suc k\<close> "3.prems" have len: "Suc j < length (g # fs)" by simp
      have "setNestedFieldNoCopy (pre @ [f]) valMap v (g # fs)
              = Inl (NotAMap ((pre @ [f]) @ take (Suc j) (g # fs)))"
        using "3.IH"(2) [OF mf refl _ len sub "3.prems"(4)] by simp
      with mf Suc \<open>n = Suc k\<close> show ?thesis by simp
    qed
  qed
qed

section \<open>Facts about the stages of a run\<close>

lemma validation_bounds:
  "sint (minCount h) > sint (maxCount h) \<Longrightarrow> \<exists>err. validation h = Some err"
  by (simp add: validation_def orElse_def split: option.splits)

lemma capaRunE_cases:
  "fst (capaRunE e fl fnd) =
     (case readAll e of
        Inl err \<Rightarrow> (Some err, [])
      | Inr inp \<Rightarrow>
          (case ProcessResources (decode e) inp (capaResourceFn e fl) (fnd, []) of
             (Some err, s) \<Rightarrow> (Some err, [])
           | (None, s) \<Rightarrow>
               (case validation
                       \<lparr>isFound = fst s,
                        managedControlplaneRole = managedcp_role fl,
                        managedMachinepoolRole = managedmp_role fl,
                        vpcCidr = vpc_cidr fl,
                        minCount = min_node_count fl,
                        maxCount = max_node_count fl\<rparr> of
                  Some err \<Rightarrow> (Some err, [])
                | None \<Rightarrow> osStdoutWrite e (snd s))))"
  by (simp add: capaRunE_def split: sum.splits prod.splits option.splits)

lemma runCAPK_cases:
  "runCAPK e =
     (case readAll e of
        Inl err \<Rightarrow> (Some err, [])
      | Inr inp \<Rightarrow>
          (case ProcessResources (decode e) inp (capkResourceFn e) [] of
             (Some err, out) \<Rightarrow> (Some err, [])
           | (None, out) \<Rightarrow> osStdoutWrite e out))"
  by (simp add: runCAPK_def)

section \<open>C4: bound ordering\<close>

text \<open>
  C4. When the lower bound exceeds the upper bound (as signed 64-bit numbers),
  \<open>validation\<close> returns an error whatever the other fields of its argument are, so
  whichever kinds were found; and a run of \<open>capa\<close> with such bounds ends with an
  error and nothing on standard output, from any \<open>isFound\<close> map and over any input.
\<close>

theorem bound_ordering:
  assumes "sint lo > sint hi"
  shows "(\<forall>h. minCount h = lo \<and> maxCount h = hi \<longrightarrow> (\<exists>err. validation h = Some err))
       \<and> (\<forall>e fl fnd. min_node_count fl = lo \<and> max_node_count fl = hi
            \<longrightarrow> (\<exists>err. fst (capaRunE e fl fnd) = (Some err, [])))"
proof (intro conjI allI impI)
  fix h :: validationHelper
  assume "minCount h = lo \<and> maxCount h = hi"
  with assms show "\<exists>err. validation h = Some err"
    by (intro validation_bounds) simp
next
  fix e :: env and fl :: flags and fnd :: "string \<rightharpoonup> bool"
  assume a: "min_node_count fl = lo \<and> max_node_count fl = hi"
  have v: "validation \<lparr>isFound = f,
                        managedControlplaneRole = managedcp_role fl,
                        managedMachinepoolRole = managedmp_role fl,
                        vpcCidr = vpc_cidr fl,
                        minCount = min_node_count fl,
                        maxCount = max_node_count fl\<rparr> \<noteq> None" for f
    using assms a validation_bounds [of "\<lparr>isFound = f,
                        managedControlplaneRole = managedcp_role fl,
                        managedMachinepoolRole = managedmp_role fl,
                        vpcCidr = vpc_cidr fl,
                        minCount = min_node_count fl,
                        maxCount = max_node_count fl\<rparr>"] by auto
  show "\<exists>err. fst (capaRunE e fl fnd) = (Some err, [])"
    unfolding capaRunE_cases
    by (auto simp: v split: sum.splits prod.splits option.splits)
qed

theorem bound_ordering_witness:
  "sint (6 :: 64 word) > sint (1 :: 64 word)
   \<and> validation \<lparr>isFound = [awsManagedControlPlane \<mapsto> True, awsManagedMachinePool \<mapsto> True, cluster \<mapsto> True],
        managedControlplaneRole = ''r'', managedMachinepoolRole = ''m'', vpcCidr = ''10.0.0.0/16'',
        minCount = 6, maxCount = 1\<rparr> = Some (ErrorsNew ''max node count can't be less than min node count'')"
  using bound_ordering [of 1 6]
  by (simp add: validation_def orElse_def found_def awsManagedControlPlane_def awsManagedMachinePool_def cluster_def)

section \<open>C5: all-or-nothing output\<close>

text \<open>
  C5. Whenever a run fails before the write to standard output, nothing is written: when
  reading the input fails; when \<open>ProcessResources\<close> returns an error (the decoder's, an
  edit's or the encoder's); and, for \<open>capa\<close>, when \<open>validation\<close> returns an error.
  Conversely, bytes on standard output mean that the input was read, that
  \<open>ProcessResources\<close> returned no error and, for \<open>capa\<close>, that \<open>validation\<close> passed.
\<close>

theorem all_or_nothing:
  "(\<forall>err. readAll e = Inl err \<longrightarrow>
       fst (capaRunE e fl fnd) = (Some err, []) \<and> runCAPK e = (Some err, []))
 \<and> (\<forall>inp err. readAll e = Inr inp
       \<and> fst (ProcessResources (decode e) inp (capaResourceFn e fl) (fnd, [])) = Some err \<longrightarrow>
       fst (capaRunE e fl fnd) = (Some err, []))
 \<and> (\<forall>inp s err. readAll e = Inr inp
       \<and> ProcessResources (decode e) inp (capaResourceFn e fl) (fnd, []) = (None, s)
       \<and> validation
            \<lparr>isFound = fst s,
             managedControlplaneRole = managedcp_role fl,
             managedMachinepoolRole = managedmp_role fl,
             vpcCidr = vpc_cidr fl,
             minCount = min_node_count fl,
             maxCount = max_node_count fl\<rparr> = Some err \<longrightarrow>
       fst (capaRunE e fl fnd) = (Some err, []))
 \<and> (\<forall>inp err. readAll e = Inr inp
       \<and> fst (ProcessResources (decode e) inp (capkResourceFn e) []) = Some err \<longrightarrow>
       runCAPK e = (Some err, []))
 \<and> (snd (fst (capaRunE e fl fnd)) \<noteq> [] \<longrightarrow>
       (\<exists>inp s. readAll e = Inr inp
          \<and> ProcessResources (decode e) inp (capaResourceFn e fl) (fnd, []) = (None, s)
          \<and> validation
               \<lparr>isFound = fst s,
                managedControlplaneRole = managedcp_role fl,
                managedMachinepoolRole = managedmp_role fl,
                vpcCidr = vpc_cidr fl,
                minCount = min_node_count fl,
                maxCount = max_node_count fl\<rparr> = None))
 \<and> (snd (runCAPK e) \<noteq> [] \<longrightarrow>
       (\<exists>inp out. readAll e = Inr inp
          \<and> ProcessResources (decode e) inp (capkResourceFn e) [] = (None, out)))"
  unfolding capaRunE_cases runCAPK_cases
  by (auto split: sum.splits prod.splits option.splits)

theorem all_or_nothing_witness:
  "readAll (exampleEnv ''broken'') = Inr ''broken''
   \<and> fst (ProcessResources (decode (exampleEnv ''broken'')) ''broken''
            (capaResourceFn (exampleEnv ''broken'') defaultFlags) (Map.empty, []))
       = Some (External ''yaml: did not find expected key'')
   \<and> fst (capaRunE (exampleEnv ''broken'') defaultFlags Map.empty)
       = (Some (External ''yaml: did not find expected key''), [])
   \<and> fst (ProcessResources (decode (exampleEnv ''broken'')) ''broken''
            (capkResourceFn (exampleEnv ''broken'')) [])
       = Some (External ''yaml: did not find expected key'')
   \<and> runCAPK (exampleEnv ''broken'') = (Some (External ''yaml: did not find expected key''), [])
   \<and> fst (capaRunE (exampleEnv ''bad-cp'') (defaultFlags\<lparr>managedcp_role := ''role''\<rparr>) Map.empty)
       = (Some (NotAMap [''spec'']), [])
   \<and> fst (capaRunE (exampleEnv ''cluster-only'') (defaultFlags\<lparr>vpc_cidr := ''10.0.0.0/16''\<rparr>)
            Map.empty)
       = (Some (ErrorsNew ''failed to get AWSManagedControlPlane for cidr update''), [])
   \<and> snd (fst (capaRunE (exampleEnv ''cluster-only'') defaultFlags Map.empty))
       = ''kind: Cluster'' @ [CHR 0x0A]
   \<and> validation
         \<lparr>isFound = [cluster \<mapsto> True], managedControlplaneRole = '''',
          managedMachinepoolRole = '''', vpcCidr = '''', minCount = 1, maxCount = 6\<rparr> = None"
  using all_or_nothing [of "exampleEnv ''broken''" defaultFlags Map.empty]
        all_or_nothing [of "exampleEnv ''bad-cp''" "defaultFlags\<lparr>managedcp_role := ''role''\<rparr>" Map.empty]
        all_or_nothing [of "exampleEnv ''cluster-only''" "defaultFlags\<lparr>vpc_cidr := ''10.0.0.0/16''\<rparr>"
                           Map.empty]
        all_or_nothing [of "exampleEnv ''cluster-only''" defaultFlags Map.empty]
  by (simp add: eval_defs)

section \<open>Facts about the callbacks\<close>

lemma visitControlPlane_fst:
  "fst (visitControlPlane fl ri fnd) = fst (visitControlPlane fl ri Map.empty)"
  by (simp add: visitControlPlane_def split: sum.split)

lemma visitMachinePool_fst:
  "fst (visitMachinePool e fl ri fnd) = fst (visitMachinePool e fl ri Map.empty)"
  by (simp add: visitMachinePool_def)

lemma visitManagedMachinePool_fst:
  "fst (visitManagedMachinePool fl ri fnd) = fst (visitManagedMachinePool fl ri Map.empty)"
  by (simp add: visitManagedMachinePool_def split: sum.split)

lemma visitCluster_fst:
  "fst (visitCluster fl ri fnd) = fst (visitCluster fl ri Map.empty)"
  by (simp add: visitCluster_def)

lemma capaEdits_unfold:
  "fst (capaEdits e fl ri fnd) =
     (case fst (visitControlPlane fl ri Map.empty) of
        Inl err \<Rightarrow> Inl err
      | Inr r1 \<Rightarrow>
     (case fst (visitMachinePool e fl r1 Map.empty) of
        Inl err \<Rightarrow> Inl err
      | Inr r2 \<Rightarrow>
     (case fst (visitManagedMachinePool fl r2 Map.empty) of
        Inl err \<Rightarrow> Inl err
      | Inr r3 \<Rightarrow> fst (visitCluster fl r3 Map.empty))))"
proof -
  obtain x1 f1 where v1: "visitControlPlane fl ri fnd = (x1, f1)" by (cases "visitControlPlane fl ri fnd")
  then have x1: "fst (visitControlPlane fl ri Map.empty) = x1"
    using visitControlPlane_fst [of fl ri fnd] by simp
  show ?thesis
  proof (cases x1)
    case (Inl err)
    with v1 x1 show ?thesis by (simp add: capaEdits_def)
  next
    case r1: (Inr r1)
    obtain x2 f2 where v2: "visitMachinePool e fl r1 f1 = (x2, f2)" by (cases "visitMachinePool e fl r1 f1")
    then have x2: "fst (visitMachinePool e fl r1 Map.empty) = x2"
      using visitMachinePool_fst [of e fl r1 f1] by simp
    show ?thesis
    proof (cases x2)
      case (Inl err)
      with v1 x1 r1 v2 x2 show ?thesis by (simp add: capaEdits_def)
    next
      case r2: (Inr r2)
      obtain x3 f3 where v3: "visitManagedMachinePool fl r2 f2 = (x3, f3)"
        by (cases "visitManagedMachinePool fl r2 f2")
      then have x3: "fst (visitManagedMachinePool fl r2 Map.empty) = x3"
        using visitManagedMachinePool_fst [of fl r2 f2] by simp
      show ?thesis
      proof (cases x3)
        case (Inl err)
        with v1 x1 r1 v2 x2 r2 v3 x3 show ?thesis by (simp add: capaEdits_def)
      next
        case r3: (Inr r3)
        with v1 x1 r1 v2 x2 r2 v3 x3 show ?thesis
          using visitCluster_fst [of fl r3 f3] by (simp add: capaEdits_def)
      qed
    qed
  qed
qed

lemma capaEdits_fst:
  "fst (capaEdits e fl ri fnd) = fst (capaEdits e fl ri Map.empty)"
  using capaEdits_unfold [of e fl ri fnd] capaEdits_unfold [of e fl ri Map.empty] by simp

lemma appendAll_nonempty:
  "out \<noteq> [] \<Longrightarrow> foldl appendDocument out bs = out @ concat (map (\<lambda>b. separator @ b) bs)"
  by (induction bs arbitrary: out) (simp_all add: appendDocument_def)

lemma joinDocuments_Cons:
  "joinDocuments (b # bs) = b @ concat (map (\<lambda>b. separator @ b) bs)"
  by (induction bs arbitrary: b) simp_all

lemma appendAll_join:
  assumes "\<forall>b\<in>set bs. b \<noteq> []"
  shows "foldl appendDocument [] bs = joinDocuments bs"
proof (cases bs)
  case Nil
  then show ?thesis by simp
next
  case (Cons b cs)
  with assms have b: "b \<noteq> []" by simp
  have "foldl appendDocument [] (b # cs) = foldl appendDocument b cs"
    by (simp add: appendDocument_def)
  also have "\<dots> = b @ concat (map (\<lambda>b. separator @ b) cs)"
    using b by (rule appendAll_nonempty)
  also have "\<dots> = joinDocuments (b # cs)"
    by (rule joinDocuments_Cons [symmetric])
  finally show ?thesis using Cons by simp
qed

lemma capkResourceFn_ok:
  "capkResourceFn e ri out = (None, out1) \<Longrightarrow>
   \<exists>d b. capkEdits ri = Inr d \<and> marshal e d = Inr b \<and> out1 = appendDocument out b"
  by (auto simp: capkResourceFn_def writeDocument_def split: sum.splits)

lemma capaResourceFn_ok:
  "capaResourceFn e fl ri (fnd, out) = (None, (fnd1, out1)) \<Longrightarrow>
   \<exists>d b. capaEdits e fl ri fnd = (Inr d, fnd1) \<and> marshal e d = Inr b \<and> out1 = appendDocument out b"
  by (cases "capaEdits e fl ri fnd")
     (auto simp: capaResourceFn_def writeDocument_def split: sum.splits)

lemma processEach_Cons_ok:
  "processEach fn (ri # ris) s = (None, s') \<Longrightarrow>
   \<exists>s1. fn ri s = (None, s1) \<and> processEach fn ris s1 = (None, s')"
  by (cases "fn ri s") (auto split: option.splits)

lemma processEach_capk:
  "processEach (capkResourceFn e) ris out = (None, out') \<Longrightarrow>
   \<exists>ds bs. map capkEdits ris = map Inr ds \<and> map (marshal e) ds = map Inr bs
     \<and> out' = foldl appendDocument out bs"
proof (induction ris arbitrary: out)
  case Nil
  then show ?case by simp
next
  case (Cons ri ris)
  from processEach_Cons_ok [OF Cons.prems] obtain out1 where
    step: "capkResourceFn e ri out = (None, out1)" and
    rest: "processEach (capkResourceFn e) ris out1 = (None, out')" by blast
  from capkResourceFn_ok [OF step] obtain d b where
    d: "capkEdits ri = Inr d" and b: "marshal e d = Inr b" and o1: "out1 = appendDocument out b"
    by blast
  from Cons.IH [OF rest] obtain ds bs where
    "map capkEdits ris = map Inr ds" "map (marshal e) ds = map Inr bs"
    "out' = foldl appendDocument out1 bs"
    by blast
  with d b o1 have "map capkEdits (ri # ris) = map Inr (d # ds)
     \<and> map (marshal e) (d # ds) = map Inr (b # bs)
     \<and> out' = foldl appendDocument out (b # bs)"
    by simp
  then show ?case by blast
qed

lemma processEach_capa:
  "processEach (capaResourceFn e fl) ris (fnd, out) = (None, (fnd', out')) \<Longrightarrow>
   \<exists>ds bs. map (\<lambda>ri. fst (capaEdits e fl ri Map.empty)) ris = map Inr ds
     \<and> map (marshal e) ds = map Inr bs
     \<and> out' = foldl appendDocument out bs"
proof (induction ris arbitrary: fnd out)
  case Nil
  then show ?case by simp
next
  case (Cons ri ris)
  from processEach_Cons_ok [OF Cons.prems] obtain fnd1 out1 where
    step: "capaResourceFn e fl ri (fnd, out) = (None, (fnd1, out1))" and
    rest: "processEach (capaResourceFn e fl) ris (fnd1, out1) = (None, (fnd', out'))" by auto
  from capaResourceFn_ok [OF step] obtain d b where
    d: "capaEdits e fl ri fnd = (Inr d, fnd1)" and b: "marshal e d = Inr b"
    and o1: "out1 = appendDocument out b"
    by blast
  from d have d': "fst (capaEdits e fl ri Map.empty) = Inr d"
    using capaEdits_fst [of e fl ri fnd] by simp
  from Cons.IH [OF rest] obtain ds bs where
    "map (\<lambda>ri. fst (capaEdits e fl ri Map.empty)) ris = map Inr ds"
    "map (marshal e) ds = map Inr bs"
    "out' = foldl appendDocument out1 bs"
    by blast
  with d' b o1 have "map (\<lambda>ri. fst (capaEdits e fl ri Map.empty)) (ri # ris) = map Inr (d # ds)
     \<and> map (marshal e) (d # ds) = map Inr (b # bs)
     \<and> out' = foldl appendDocument out (b # bs)"
    by simp
  then show ?case by blast
qed

lemma marshalled_nonempty:
  "\<forall>d b. mar d = Inr b \<longrightarrow> b \<noteq> [] \<Longrightarrow> map mar ds = map Inr bs \<Longrightarrow> \<forall>b\<in>set bs. b \<noteq> []"
proof (induction ds arbitrary: bs)
  case Nil
  then show ?case by simp
next
  case (Cons d ds)
  then show ?case by (cases bs) auto
qed

section \<open>C6: order preservation and the separator\<close>

text \<open>
  C6. \<open>yaml.Marshal\<close> never returns an empty encoding for a manifest (the least it
  prints is \<open>{}\<close> and a newline); with an encoder that has this property, every run that
  succeeds over a stream of N documents writes exactly N encodings, the i-th being the
  encoding of the i-th document as edited, in the order of the stream, joined by the
  separator, with no separator before the first. This holds for \<open>capa\<close> and for
  \<open>capk\<close>.
\<close>

theorem order_preservation:
  assumes ne: "\<forall>d b. marshal e d = Inr b \<longrightarrow> b \<noteq> []"
      and rd: "readAll e = Inr inp"
      and dec: "decode e inp = (ris, derr)"
  shows "(\<forall>written. fst (capaRunE e fl fnd) = (None, written) \<longrightarrow>
            (\<exists>ds bs. length ds = length ris \<and> length bs = length ris
               \<and> map (\<lambda>ri. fst (capaEdits e fl ri Map.empty)) ris = map Inr ds
               \<and> map (marshal e) ds = map Inr bs
               \<and> written = joinDocuments bs))
       \<and> (\<forall>written. runCAPK e = (None, written) \<longrightarrow>
            (\<exists>ds bs. length ds = length ris \<and> length bs = length ris
               \<and> map capkEdits ris = map Inr ds
               \<and> map (marshal e) ds = map Inr bs
               \<and> written = joinDocuments bs))"
proof (intro conjI allI impI)
  fix written
  assume ok: "fst (capaRunE e fl fnd) = (None, written)"
  then obtain fnd' where pe: "processEach (capaResourceFn e fl) ris (fnd, []) = (None, (fnd', written))"
    unfolding capaRunE_cases using rd dec
    by (auto simp: ProcessResources_def osStdoutWrite_def split: prod.splits option.splits)
  from processEach_capa [OF pe] obtain ds bs where
    m1: "map (\<lambda>ri. fst (capaEdits e fl ri Map.empty)) ris = map Inr ds" and
    m2: "map (marshal e) ds = map Inr bs" and
    w: "written = foldl appendDocument [] bs"
    by blast
  from m1 have l1: "length ds = length ris" by (metis length_map)
  from m2 have l2: "length bs = length ds" by (metis length_map)
  from marshalled_nonempty [OF ne m2] w have "written = joinDocuments bs"
    by (simp add: appendAll_join)
  with m1 m2 l1 l2 show "\<exists>ds bs. length ds = length ris \<and> length bs = length ris
               \<and> map (\<lambda>ri. fst (capaEdits e fl ri Map.empty)) ris = map Inr ds
               \<and> map (marshal e) ds = map Inr bs
               \<and> written = joinDocuments bs"
    by auto
next
  fix written
  assume ok: "runCAPK e = (None, written)"
  then have pe: "processEach (capkResourceFn e) ris [] = (None, written)"
    unfolding runCAPK_cases using rd dec
    by (auto simp: ProcessResources_def osStdoutWrite_def split: prod.splits option.splits)
  from processEach_capk [OF pe] obtain ds bs where
    m1: "map capkEdits ris = map Inr ds" and
    m2: "map (marshal e) ds = map Inr bs" and
    w: "written = foldl appendDocument [] bs"
    by blast
  from m1 have l1: "length ds = length ris" by (metis length_map)
  from m2 have l2: "length bs = length ds" by (metis length_map)
  from marshalled_nonempty [OF ne m2] w have "written = joinDocuments bs"
    by (simp add: appendAll_join)
  with m1 m2 l1 l2 show "\<exists>ds bs. length ds = length ris \<and> length bs = length ris
               \<and> map capkEdits ris = map Inr ds
               \<and> map (marshal e) ds = map Inr bs
               \<and> written = joinDocuments bs"
    by auto
qed


theorem order_preservation_witness:
  "\<exists>ds bs. length ds = length [cpDoc, clusterDoc] \<and> length bs = length [cpDoc, clusterDoc]
     \<and> map (\<lambda>ri. fst (capaEdits (exampleEnv ''cp-and-cluster'')
                        (defaultFlags\<lparr>vpc_cidr := ''10.0.0.0/16''\<rparr>) ri Map.empty))
           [cpDoc, clusterDoc] = map Inr ds
     \<and> map (marshal (exampleEnv ''cp-and-cluster'')) ds = map Inr bs
     \<and> ''kind: AWSManagedControlPlane'' @ [CHR 0x0A] @ ''---'' @ [CHR 0x0A]
          @ ''kind: Cluster'' @ [CHR 0x0A] = joinDocuments bs"
proof -
  have ne: "\<forall>d b. marshal (exampleEnv ''cp-and-cluster'') d = Inr b \<longrightarrow> b \<noteq> []"
    by (auto simp: exampleEnv_def exampleMarshal_def)
  have rd: "readAll (exampleEnv ''cp-and-cluster'') = Inr ''cp-and-cluster''"
    by (simp add: exampleEnv_def)
  have dec: "decode (exampleEnv ''cp-and-cluster'') ''cp-and-cluster'' = ([cpDoc, clusterDoc], None)"
    by (simp add: exampleEnv_def exampleDecode_def)
  have ok: "fst (capaRunE (exampleEnv ''cp-and-cluster'')
                  (defaultFlags\<lparr>vpc_cidr := ''10.0.0.0/16''\<rparr>) Map.empty)
            = (None, ''kind: AWSManagedControlPlane'' @ [CHR 0x0A] @ ''---'' @ [CHR 0x0A]
                       @ ''kind: Cluster'' @ [CHR 0x0A])"
    by (simp add: eval_defs)
  from order_preservation [OF ne rd dec] ok show ?thesis by blast
qed

section \<open>C10: \<open>capk\<close> has no batch validation\<close>

lemma capkResourceFn_succeeds:
  "capkEdits ri = Inr d \<Longrightarrow> marshal e d = Inr b \<Longrightarrow>
   capkResourceFn e ri out = (None, appendDocument out b)"
  by (simp add: capkResourceFn_def writeDocument_def)

lemma processEach_capk_succeeds:
  "\<forall>ri\<in>set ris. \<exists>d b. capkEdits ri = Inr d \<and> marshal e d = Inr b \<Longrightarrow>
   \<exists>out'. processEach (capkResourceFn e) ris out = (None, out')"
proof (induction ris arbitrary: out)
  case Nil
  then show ?case by simp
next
  case (Cons ri ris)
  then obtain d b where "capkEdits ri = Inr d" "marshal e d = Inr b" by auto
  then have "capkResourceFn e ri out = (None, appendDocument out b)"
    by (rule capkResourceFn_succeeds)
  moreover from Cons obtain out' where
    "processEach (capkResourceFn e) ris (appendDocument out b) = (None, out')"
    by fastforce
  ultimately show ?case by simp
qed

text \<open>
  C10. When the input is read and decoded without error and, for every document, the edit
  of \<open>capk\<close> and the encoding succeed, \<open>ProcessResources\<close> returns no error and the
  result of the run is the result of writing the buffer to standard output: no other stage
  can reject the run, whether or not a \<open>KubevirtMachineTemplate\<close> is among the documents.
  When the write succeeds, the run succeeds with the buffer as its output.
\<close>

theorem capk_no_validation:
  assumes rd: "readAll e = Inr inp"
      and dec: "decode e inp = (ris, None)"
      and ok: "\<forall>ri\<in>set ris. \<exists>d b. capkEdits ri = Inr d \<and> marshal e d = Inr b"
  shows "\<exists>out. ProcessResources (decode e) inp (capkResourceFn e) [] = (None, out)
           \<and> runCAPK e = osStdoutWrite e out
           \<and> (stdoutWrite e out = None \<longrightarrow> runCAPK e = (None, out))"
proof -
  from processEach_capk_succeeds [OF ok] obtain out where
    pe: "processEach (capkResourceFn e) ris [] = (None, out)" by blast
  with dec have pr: "ProcessResources (decode e) inp (capkResourceFn e) [] = (None, out)"
    by (simp add: ProcessResources_def)
  with rd have run: "runCAPK e = osStdoutWrite e out"
    by (simp add: runCAPK_cases)
  then have "stdoutWrite e out = None \<longrightarrow> runCAPK e = (None, out)"
    by (simp add: osStdoutWrite_def)
  with pr run show ?thesis by (intro exI [of _ out]) simp
qed

theorem capk_no_validation_witness:
  "readAll (exampleEnv ''plain'') = Inr ''plain''
   \<and> decode (exampleEnv ''plain'') ''plain'' = ([configMapDoc, configMapDoc], None)
   \<and> GetKind configMapDoc = ''ConfigMap''
   \<and> runCAPK (exampleEnv ''plain'')
       = (None, ''kind: ConfigMap'' @ [CHR 0x0A] @ ''---'' @ [CHR 0x0A] @ ''kind: ConfigMap'' @ [CHR 0x0A])"
proof -
  have rd: "readAll (exampleEnv ''plain'') = Inr ''plain''"
    by (simp add: exampleEnv_def)
  have dec: "decode (exampleEnv ''plain'') ''plain'' = ([configMapDoc, configMapDoc], None)"
    by (simp add: exampleEnv_def exampleDecode_def)
  have ok: "\<forall>ri\<in>set [configMapDoc, configMapDoc].
              \<exists>d b. capkEdits ri = Inr d \<and> marshal (exampleEnv ''plain'') d = Inr b"
    by (simp add: capkEdits_def GetKind_def configMapDoc_def exampleEnv_def exampleMarshal_def)
  from capk_no_validation [OF rd dec ok] show ?thesis
  proof (elim exE conjE)
    fix out
    assume pr: "ProcessResources (decode (exampleEnv ''plain'')) ''plain''
           (capkResourceFn (exampleEnv ''plain'')) [] = (None, out)"
      and run: "stdoutWrite (exampleEnv ''plain'') out = None \<longrightarrow> runCAPK (exampleEnv ''plain'') = (None, out)"
    from pr have "out = ''kind: ConfigMap'' @ [CHR 0x0A] @ ''---'' @ [CHR 0x0A] @ ''kind: ConfigMap'' @ [CHR 0x0A]"
      by (simp add: eval_defs)
    with run rd dec show ?thesis
      by (simp add: exampleEnv_def GetKind_def configMapDoc_def)
  qed
qed

section \<open>Facts about failing edits\<close>

lemma processEach_fails:
  "ri \<in> set ris \<Longrightarrow> (\<And>s. fst (fn ri s) \<noteq> None) \<Longrightarrow> fst (processEach fn ris s) \<noteq> None"
proof (induction ris arbitrary: s)
  case Nil
  then show ?case by simp
next
  case (Cons a ris)
  show ?case
  proof (cases "fn a s")
    case (Pair r s1)
    show ?thesis
    proof (cases r)
      case (Some err)
      with Pair show ?thesis by simp
    next
      case None
      with Pair Cons.prems(2) [of s] have "a \<noteq> ri" by auto
      with Cons.prems(1) have "ri \<in> set ris" by simp
      then have "fst (processEach fn ris s1) \<noteq> None"
        using Cons.prems(2) by (rule Cons.IH)
      with Pair None show ?thesis by simp
    qed
  qed
qed

lemma ProcessResources_fails:
  assumes "dec data = (ris, derr)" and "ri \<in> set ris" and "\<And>s. fst (fn ri s) \<noteq> None"
  shows "\<exists>err. fst (ProcessResources dec data fn s) = Some err"
proof -
  have "fst (processEach fn ris s) \<noteq> None"
    using assms(2,3) by (rule processEach_fails)
  then obtain err s1 where "processEach fn ris s = (Some err, s1)"
    by (cases "processEach fn ris s") auto
  with assms(1) show ?thesis by (simp add: ProcessResources_def)
qed

lemma capkResourceFn_fails:
  "capkEdits ri = Inl err \<Longrightarrow> fst (capkResourceFn e ri out) \<noteq> None"
  by (simp add: capkResourceFn_def)

lemma capaResourceFn_fails:
  "(\<And>fnd. fst (capaEdits e fl ri fnd) = Inl err) \<Longrightarrow> fst (capaResourceFn e fl ri s) \<noteq> None"
proof -
  assume a: "\<And>fnd. fst (capaEdits e fl ri fnd) = Inl err"
  obtain fnd out where s: "s = (fnd, out)" by (cases s)
  obtain f1 where "capaEdits e fl ri fnd = (Inl err, f1)"
    using a [of fnd] by (cases "capaEdits e fl ri fnd") auto
  with s show ?thesis by (simp add: capaResourceFn_def)
qed

lemma runCAPK_fails:
  assumes "readAll e = Inr inp" and "fst (ProcessResources (decode e) inp (capkResourceFn e) []) = Some err"
  shows "runCAPK e = (Some err, [])"
  using assms unfolding runCAPK_cases by (auto split: prod.splits option.splits)

lemma capaRunE_fails:
  assumes "readAll e = Inr inp"
      and "fst (ProcessResources (decode e) inp (capaResourceFn e fl) (fnd, [])) = Some err"
  shows "fst (capaRunE e fl fnd) = (Some err, [])"
  using assms unfolding capaRunE_cases by (auto split: prod.splits option.splits)

lemma SetNestedField_blocked:
  assumes "0 < n" and "n < length path" and "NestedFieldNoCopy ri (take n path) = Some x"
      and "\<forall>y. x \<noteq> JMap y"
  shows "SetNestedField ri v path = Inl (NotAMap (take n path))"
  using setNested_blocked [OF assms, of "[]" v] by (simp add: SetNestedField_def)

lemma spec_scalar_blocks:
  assumes "map_of ri ''spec'' = Some x" and "\<forall>y. x \<noteq> JMap y"
  shows "SetNestedField ri v (''spec'' # f # fs) = Inl (NotAMap [''spec''])"
  using SetNestedField_blocked [of 1 "''spec'' # f # fs" ri x v] assms by simp

lemma visitControlPlane_blocked:
  assumes "GetKind ri = awsManagedControlPlane"
      and "vpc_cidr fl \<noteq> '''' \<or> managedcp_role fl \<noteq> ''''"
      and "map_of ri ''spec'' = Some x" and "\<forall>y. x \<noteq> JMap y"
  shows "fst (visitControlPlane fl ri fnd) = Inl (NotAMap [''spec''])"
  using assms(1,2) spec_scalar_blocks [OF assms(3,4)]
  by (auto simp: visitControlPlane_def managedCPCIDR_def managedCPRole_def SetNestedMap_def)

lemma capaEdits_blocked:
  assumes "GetKind ri = awsManagedControlPlane"
      and "vpc_cidr fl \<noteq> '''' \<or> managedcp_role fl \<noteq> ''''"
      and "map_of ri ''spec'' = Some x" and "\<forall>y. x \<noteq> JMap y"
  shows "fst (capaEdits e fl ri fnd) = Inl (NotAMap [''spec''])"
  unfolding capaEdits_unfold
  using visitControlPlane_blocked [OF assms, of Map.empty] by simp

section \<open>C9: the whole sub-mapping is replaced\<close>

lemma setNested_sibling:
  "setNestedFieldNoCopy pre m v [a, b] = Inr m' \<Longrightarrow> c \<noteq> b \<Longrightarrow>
   NestedFieldNoCopy m' [a, c] = NestedFieldNoCopy m [a, c]"
  by (auto simp: update_conv' split: option.splits jvalue.splits)

lemma SetNestedField_kind:
  "SetNestedField m v (f # fs) = Inr m' \<Longrightarrow> f \<noteq> ''kind'' \<Longrightarrow> GetKind m' = GetKind m"
  using setNested_frame [of "[]" m v f fs m' "''kind''"]
  by (simp add: SetNestedField_def GetKind_def)

lemma SetNestedField_frame:
  "SetNestedField m v (f # fs) = Inr m' \<Longrightarrow> k \<noteq> f \<Longrightarrow> map_of m' k = map_of m k"
  unfolding SetNestedField_def by (rule setNested_frame)

lemma SetNestedField_get:
  "SetNestedField m v (f # fs) = Inr m' \<Longrightarrow> NestedFieldNoCopy m' (f # fs) = Some v"
  using setNested_get [where fs = "f # fs" and pre = "[]" and m = m and v = v and m' = m']
  by (simp add: SetNestedField_def)

lemma SetNestedField_sibling:
  "SetNestedField m v [a, b] = Inr m' \<Longrightarrow> c \<noteq> b \<Longrightarrow>
   NestedFieldNoCopy m' [a, c] = NestedFieldNoCopy m [a, c]"
  unfolding SetNestedField_def by (rule setNested_sibling)

lemma managedCPCIDR_kind: "managedCPCIDR ri c = Inr ri' \<Longrightarrow> GetKind ri' = GetKind ri"
  by (auto simp: managedCPCIDR_def SetNestedMap_def dest: SetNestedField_kind)

lemma managedCPRole_kind: "managedCPRole ri r = Inr ri' \<Longrightarrow> GetKind ri' = GetKind ri"
  by (auto simp: managedCPRole_def dest: SetNestedField_kind)

lemma managedMPScaling_kind: "managedMPScaling ri lo hi = Inr ri' \<Longrightarrow> GetKind ri' = GetKind ri"
  by (auto simp: managedMPScaling_def SetNestedMap_def dest: SetNestedField_kind)

lemma managedMPRole_kind: "managedMPRole ri r = Inr ri' \<Longrightarrow> GetKind ri' = GetKind ri"
  by (auto simp: managedMPRole_def dest: SetNestedField_kind)

lemma clusterAnnotations_kind: "clusterAnnotations ri r = Inr ri' \<Longrightarrow> GetKind ri' = GetKind ri"
  by (auto simp: clusterAnnotations_def dest: SetNestedField_kind)

lemma visitControlPlane_kind:
  "visitControlPlane fl ri fnd = (Inr ri', fnd') \<Longrightarrow> GetKind ri' = GetKind ri"
  by (auto simp: visitControlPlane_def split: if_splits sum.splits
           dest!: managedCPCIDR_kind managedCPRole_kind)

lemma visitManagedMachinePool_kind:
  "visitManagedMachinePool fl ri fnd = (Inr ri', fnd') \<Longrightarrow> GetKind ri' = GetKind ri"
  by (auto simp: visitManagedMachinePool_def split: if_splits sum.splits
           dest!: managedMPScaling_kind managedMPRole_kind)

lemma visitCluster_kind:
  "visitCluster fl ri fnd = (Inr ri', fnd') \<Longrightarrow> GetKind ri' = GetKind ri"
  by (auto simp: visitCluster_def split: if_splits dest: clusterAnnotations_kind)

lemma visitControlPlane_other:
  "GetKind ri \<noteq> awsManagedControlPlane \<Longrightarrow> visitControlPlane fl ri fnd = (Inr ri, fnd)"
  by (simp add: visitControlPlane_def)

lemma visitMachinePool_other:
  "GetKind ri \<noteq> machinePool \<Longrightarrow> visitMachinePool e fl ri fnd = (Inr ri, fnd)"
  by (simp add: visitMachinePool_def)

lemma visitManagedMachinePool_other:
  "GetKind ri \<noteq> awsManagedMachinePool \<Longrightarrow> visitManagedMachinePool fl ri fnd = (Inr ri, fnd)"
  by (simp add: visitManagedMachinePool_def)

lemma visitCluster_other:
  "GetKind ri \<noteq> cluster \<Longrightarrow> visitCluster fl ri fnd = (Inr ri, fnd)"
  by (simp add: visitCluster_def)

text \<open>A control-plane document goes through the first block only.\<close>

lemma capaEdits_controlPlane:
  assumes "GetKind ri = awsManagedControlPlane"
  shows "fst (capaEdits e fl ri fnd) = fst (visitControlPlane fl ri Map.empty)"
proof (cases "visitControlPlane fl ri Map.empty")
  case (Pair x f1)
  show ?thesis
  proof (cases x)
    case (Inl err)
    with Pair show ?thesis by (simp add: capaEdits_unfold)
  next
    case (Inr r1)
    with Pair have k: "GetKind r1 = awsManagedControlPlane"
      using visitControlPlane_kind [of fl ri Map.empty r1 f1] assms by simp
    then have "GetKind r1 \<noteq> machinePool" "GetKind r1 \<noteq> awsManagedMachinePool" "GetKind r1 \<noteq> cluster"
      by (simp_all add: kind_defs)
    with Pair Inr show ?thesis
      by (simp add: capaEdits_unfold visitMachinePool_other visitManagedMachinePool_other
            visitCluster_other)
  qed
qed

text \<open>A managed machine pool goes through the third block only.\<close>

lemma capaEdits_managedMachinePool:
  assumes "GetKind ri = awsManagedMachinePool"
  shows "fst (capaEdits e fl ri fnd) = fst (visitManagedMachinePool fl ri Map.empty)"
proof -
  from assms have 1: "GetKind ri \<noteq> awsManagedControlPlane" "GetKind ri \<noteq> machinePool"
    by (simp_all add: kind_defs)
  show ?thesis
  proof (cases "visitManagedMachinePool fl ri Map.empty")
    case (Pair x f1)
    show ?thesis
    proof (cases x)
      case (Inl err)
      with Pair 1 show ?thesis
        by (simp add: capaEdits_unfold visitControlPlane_other visitMachinePool_other)
    next
      case (Inr r3)
      with Pair have "GetKind r3 = awsManagedMachinePool"
        using visitManagedMachinePool_kind [of fl ri Map.empty r3 f1] assms by simp
      then have "GetKind r3 \<noteq> cluster" by (simp add: kind_defs)
      with Pair Inr 1 show ?thesis
        by (simp add: capaEdits_unfold visitControlPlane_other visitMachinePool_other
              visitCluster_other)
    qed
  qed
qed

lemma managedCPCIDR_network:
  assumes "managedCPCIDR ri c = Inr ri'"
  shows "NestedFieldNoCopy ri' [''spec'', ''network''] = Some (JMap [(''vpc'', JMap [(''cidrBlock'', JString c)])])"
  using assms SetNestedField_get [of ri _ "''spec''" "[''network'']" ri']
  by (simp add: managedCPCIDR_def SetNestedMap_def)

lemma managedMPScaling_scaling:
  assumes "managedMPScaling ri lo hi = Inr ri'"
  shows "NestedFieldNoCopy ri' [''spec'', ''scaling'']
           = Some (JMap [(''minSize'', JInt lo), (''maxSize'', JInt hi)])"
  using assms SetNestedField_get [of ri _ "''spec''" "[''scaling'']" ri']
  by (simp add: managedMPScaling_def SetNestedMap_def)

lemma roleName_keeps:
  assumes "SetNestedField ri v [''spec'', ''roleName''] = Inr ri'" and "k \<noteq> ''roleName''"
  shows "NestedFieldNoCopy ri' [''spec'', k] = NestedFieldNoCopy ri [''spec'', k]"
  using assms by (rule SetNestedField_sibling)

text \<open>
  C9. When \<open>managedCPCIDR\<close> succeeds, \<open>spec.network\<close> of the document is exactly
  \<open>{vpc: {cidrBlock: c}}\<close>: whatever was under \<open>spec.network\<close> before is gone, the other
  fields of \<open>spec\<close> and the other top-level fields are as they were. When
  \<open>managedMPScaling\<close> succeeds, \<open>spec.scaling\<close> is exactly \<open>{minSize, maxSize}\<close>, with
  the same frame. In a run of \<open>capa\<close>, the document handed to the encoder for an
  \<open>AWSManagedControlPlane\<close> with the CIDR requested, and for every
  \<open>AWSManagedMachinePool\<close>, has these sub-mappings (the later write of \<open>spec.roleName\<close>
  keeps them).
\<close>

theorem subtree_replacement:
  "(managedCPCIDR ri c = Inr ri' \<longrightarrow>
      NestedFieldNoCopy ri' [''spec'', ''network'']
        = Some (JMap [(''vpc'', JMap [(''cidrBlock'', JString c)])])
      \<and> (\<forall>k. k \<noteq> ''vpc'' \<longrightarrow> NestedFieldNoCopy ri' [''spec'', ''network'', k] = None)
      \<and> (\<forall>k. k \<noteq> ''network'' \<longrightarrow> NestedFieldNoCopy ri' [''spec'', k] = NestedFieldNoCopy ri [''spec'', k])
      \<and> (\<forall>k. k \<noteq> ''spec'' \<longrightarrow> map_of ri' k = map_of ri k))
 \<and> (managedMPScaling ri lo hi = Inr ri' \<longrightarrow>
      NestedFieldNoCopy ri' [''spec'', ''scaling'']
        = Some (JMap [(''minSize'', JInt lo), (''maxSize'', JInt hi)])
      \<and> (\<forall>k. k \<noteq> ''minSize'' \<and> k \<noteq> ''maxSize'' \<longrightarrow>
            NestedFieldNoCopy ri' [''spec'', ''scaling'', k] = None)
      \<and> (\<forall>k. k \<noteq> ''scaling'' \<longrightarrow> NestedFieldNoCopy ri' [''spec'', k] = NestedFieldNoCopy ri [''spec'', k])
      \<and> (\<forall>k. k \<noteq> ''spec'' \<longrightarrow> map_of ri' k = map_of ri k))
 \<and> (GetKind ri = awsManagedControlPlane \<and> vpc_cidr fl \<noteq> ''''
      \<and> capaEdits e fl ri fnd = (Inr ri', fnd') \<longrightarrow>
      NestedFieldNoCopy ri' [''spec'', ''network'']
        = Some (JMap [(''vpc'', JMap [(''cidrBlock'', JString (vpc_cidr fl))])]))
 \<and> (GetKind ri = awsManagedMachinePool \<and> capaEdits e fl ri fnd = (Inr ri', fnd') \<longrightarrow>
      NestedFieldNoCopy ri' [''spec'', ''scaling'']
        = Some (JMap [(''minSize'', JInt (min_node_count fl)), (''maxSize'', JInt (max_node_count fl))]))"
proof (intro conjI impI allI)
  assume a: "managedCPCIDR ri c = Inr ri'"
  then show n: "NestedFieldNoCopy ri' [''spec'', ''network'']
        = Some (JMap [(''vpc'', JMap [(''cidrBlock'', JString c)])])"
    by (rule managedCPCIDR_network)
  { fix k :: string assume "k \<noteq> ''vpc''"
    with n show "NestedFieldNoCopy ri' [''spec'', ''network'', k] = None"
      by (auto split: option.splits jvalue.splits) }
  from a have w: "SetNestedField ri (JMap [(''vpc'', JMap [(''cidrBlock'', JString c)])])
                    [''spec'', ''network''] = Inr ri'"
    by (simp add: managedCPCIDR_def SetNestedMap_def)
  { fix k :: string assume "k \<noteq> ''network''"
    with w show "NestedFieldNoCopy ri' [''spec'', k] = NestedFieldNoCopy ri [''spec'', k]"
      by (rule SetNestedField_sibling) }
  { fix k :: string assume "k \<noteq> ''spec''"
    with w show "map_of ri' k = map_of ri k"
      by (rule SetNestedField_frame) }
next
  assume a: "managedMPScaling ri lo hi = Inr ri'"
  then show n: "NestedFieldNoCopy ri' [''spec'', ''scaling'']
        = Some (JMap [(''minSize'', JInt lo), (''maxSize'', JInt hi)])"
    by (rule managedMPScaling_scaling)
  { fix k :: string assume "k \<noteq> ''minSize'' \<and> k \<noteq> ''maxSize''"
    with n show "NestedFieldNoCopy ri' [''spec'', ''scaling'', k] = None"
      by (auto split: option.splits jvalue.splits) }
  from a have w: "SetNestedField ri (JMap [(''minSize'', JInt lo), (''maxSize'', JInt hi)])
                    [''spec'', ''scaling''] = Inr ri'"
    by (simp add: managedMPScaling_def SetNestedMap_def)
  { fix k :: string assume "k \<noteq> ''scaling''"
    with w show "NestedFieldNoCopy ri' [''spec'', k] = NestedFieldNoCopy ri [''spec'', k]"
      by (rule SetNestedField_sibling) }
  { fix k :: string assume "k \<noteq> ''spec''"
    with w show "map_of ri' k = map_of ri k"
      by (rule SetNestedField_frame) }
next
  assume a: "GetKind ri = awsManagedControlPlane \<and> vpc_cidr fl \<noteq> ''''
      \<and> capaEdits e fl ri fnd = (Inr ri', fnd')"
  then have "fst (visitControlPlane fl ri Map.empty) = Inr ri'"
    using capaEdits_controlPlane [of ri e fl fnd] by simp
  with a obtain r1 where r1: "managedCPCIDR ri (vpc_cidr fl) = Inr r1"
    and r2: "(if managedcp_role fl \<noteq> '''' then managedCPRole r1 (managedcp_role fl) else Inr r1) = Inr ri'"
    by (auto simp: visitControlPlane_def split: sum.splits)
  from r1 have n: "NestedFieldNoCopy r1 [''spec'', ''network'']
        = Some (JMap [(''vpc'', JMap [(''cidrBlock'', JString (vpc_cidr fl))])])"
    by (rule managedCPCIDR_network)
  show "NestedFieldNoCopy ri' [''spec'', ''network'']
        = Some (JMap [(''vpc'', JMap [(''cidrBlock'', JString (vpc_cidr fl))])])"
  proof (cases "managedcp_role fl \<noteq> ''''")
    case True
    with r2 have "SetNestedField r1 (JString (managedcp_role fl)) [''spec'', ''roleName''] = Inr ri'"
      by (simp add: managedCPRole_def)
    then have "NestedFieldNoCopy ri' [''spec'', ''network''] = NestedFieldNoCopy r1 [''spec'', ''network'']"
      by (rule roleName_keeps) simp
    with n show ?thesis by simp
  next
    case False
    with r2 n show ?thesis by simp
  qed
next
  assume a: "GetKind ri = awsManagedMachinePool \<and> capaEdits e fl ri fnd = (Inr ri', fnd')"
  then have "fst (visitManagedMachinePool fl ri Map.empty) = Inr ri'"
    using capaEdits_managedMachinePool [of ri e fl fnd] by simp
  with a obtain r1 where r1: "managedMPScaling ri (min_node_count fl) (max_node_count fl) = Inr r1"
    and r2: "(if managedmp_role fl \<noteq> '''' then managedMPRole r1 (managedmp_role fl) else Inr r1) = Inr ri'"
    by (auto simp: visitManagedMachinePool_def split: sum.splits)
  from r1 have n: "NestedFieldNoCopy r1 [''spec'', ''scaling'']
        = Some (JMap [(''minSize'', JInt (min_node_count fl)), (''maxSize'', JInt (max_node_count fl))])"
    by (rule managedMPScaling_scaling)
  show "NestedFieldNoCopy ri' [''spec'', ''scaling'']
        = Some (JMap [(''minSize'', JInt (min_node_count fl)), (''maxSize'', JInt (max_node_count fl))])"
  proof (cases "managedmp_role fl \<noteq> ''''")
    case True
    with r2 have "SetNestedField r1 (JString (managedmp_role fl)) [''spec'', ''roleName''] = Inr ri'"
      by (simp add: managedMPRole_def)
    then have "NestedFieldNoCopy ri' [''spec'', ''scaling''] = NestedFieldNoCopy r1 [''spec'', ''scaling'']"
      by (rule roleName_keeps) simp
    with n show ?thesis by simp
  next
    case False
    with r2 n show ?thesis by simp
  qed
qed


theorem subtree_replacement_witness:
  "managedCPCIDR cpDoc ''10.0.0.0/16''
     = Inr [(''kind'', JString ''AWSManagedControlPlane''),
            (''metadata'', JMap [(''name'', JString ''cp''), (''namespace'', JString ''default'')]),
            (''spec'', JMap [(''region'', JString ''us-east-1''),
                             (''network'', JMap [(''vpc'', JMap [(''cidrBlock'', JString ''10.0.0.0/16'')])])])]
   \<and> NestedFieldNoCopy cpDoc [''spec'', ''network'', ''cni'']
       = Some (JMap [(''cniIngressRules'', JList [])])
   \<and> NestedFieldNoCopy
         [(''kind'', JString ''AWSManagedControlPlane''),
          (''metadata'', JMap [(''name'', JString ''cp''), (''namespace'', JString ''default'')]),
          (''spec'', JMap [(''region'', JString ''us-east-1''),
                           (''network'', JMap [(''vpc'', JMap [(''cidrBlock'', JString ''10.0.0.0/16'')])])])]
         [''spec'', ''network'', ''cni''] = None
   \<and> managedMPScaling ampDoc 1 6
     = Inr [(''kind'', JString ''AWSManagedMachinePool''),
            (''metadata'', JMap [(''name'', JString ''pool''), (''namespace'', JString ''default'')]),
            (''spec'', JMap [(''instanceType'', JString ''t3.large''),
                             (''scaling'', JMap [(''minSize'', JInt 1), (''maxSize'', JInt 6)])])]
   \<and> NestedFieldNoCopy ampDoc [''spec'', ''scaling'', ''keep''] = Some (JBool True)
   \<and> NestedFieldNoCopy
         [(''kind'', JString ''AWSManagedMachinePool''),
          (''metadata'', JMap [(''name'', JString ''pool''), (''namespace'', JString ''default'')]),
          (''spec'', JMap [(''instanceType'', JString ''t3.large''),
                           (''scaling'', JMap [(''minSize'', JInt 1), (''maxSize'', JInt 6)])])]
         [''spec'', ''scaling'', ''keep''] = None"
  using subtree_replacement [where ri = cpDoc and c = "''10.0.0.0/16''" and ri' =
         "[(''kind'', JString ''AWSManagedControlPlane''),
          (''metadata'', JMap [(''name'', JString ''cp''), (''namespace'', JString ''default'')]),
          (''spec'', JMap [(''region'', JString ''us-east-1''),
                           (''network'', JMap [(''vpc'', JMap [(''cidrBlock'', JString ''10.0.0.0/16'')])])])]"]
        subtree_replacement [where ri = ampDoc and lo = 1 and hi = 6 and ri' =
         "[(''kind'', JString ''AWSManagedMachinePool''),
          (''metadata'', JMap [(''name'', JString ''pool''), (''namespace'', JString ''default'')]),
          (''spec'', JMap [(''instanceType'', JString ''t3.large''),
                           (''scaling'', JMap [(''minSize'', JInt 1), (''maxSize'', JInt 6)])])]"]
  by (simp add: eval_defs)

section \<open>C1: a run with no intent\<close>

lemma capaEdits_untouched:
  assumes "GetKind ri \<noteq> machinePool" and "GetKind ri \<noteq> awsManagedMachinePool" and "GetKind ri \<noteq> cluster"
      and "vpc_cidr fl = ''''" and "managedcp_role fl = ''''"
  shows "fst (capaEdits e fl ri fnd) = Inr ri"
proof (cases "GetKind ri = awsManagedControlPlane")
  case True
  with assms(4,5) show ?thesis
    by (simp add: capaEdits_controlPlane visitControlPlane_def)
next
  case False
  with assms(1-3) show ?thesis
    by (simp add: capaEdits_unfold visitControlPlane_other visitMachinePool_other
          visitManagedMachinePool_other visitCluster_other)
qed

lemma capaEdits_scaling_only:
  assumes "GetKind ri = awsManagedMachinePool" and "managedmp_role fl = ''''"
  shows "fst (capaEdits e fl ri fnd) = managedMPScaling ri (min_node_count fl) (max_node_count fl)"
  using assms
  by (simp add: capaEdits_managedMachinePool visitManagedMachinePool_def split: sum.splits)

lemma map_untouched:
  "\<forall>ri\<in>set ris. f ri = Inr ri \<Longrightarrow> map f ris = map Inr ds \<Longrightarrow> ds = ris"
proof (induction ris arbitrary: ds)
  case Nil
  then show ?case by simp
next
  case (Cons a ris)
  then show ?case by (cases ds) auto
qed

text \<open>
  C1, as amended. With the three string flags empty, \<open>capa\<close> hands to the encoder,
  unchanged, every document whose kind is none of \<open>MachinePool\<close>,
  \<open>AWSManagedMachinePool\<close> and \<open>Cluster\<close> (an \<open>AWSManagedControlPlane\<close> included). For
  an \<open>AWSManagedMachinePool\<close> the edit is exactly \<open>managedMPScaling\<close> with the two
  bounds, which the command always has (1 and 6 by default): when it succeeds,
  \<open>spec.scaling\<close> of the document handed to the encoder reads \<open>{minSize, maxSize}\<close> with
  these bounds, and the other fields of \<open>spec\<close> and the other top-level fields are as
  they were. \<open>capk\<close> hands on unchanged every document whose kind is not
  \<open>KubevirtMachineTemplate\<close>, and applies \<open>setBootstrapCheckStrategy\<close> to the others:
  when it succeeds, \<open>spec.template.spec.virtualMachineBootstrapCheck.checkStrategy\<close>
  reads \<open>none\<close> and the top-level fields other than \<open>spec\<close> are as they were. So a
  successful run over a stream with none of the edited kinds writes the encodings of the
  decoded documents themselves, joined by the separator (for an encoder that never returns
  an empty encoding).
\<close>

theorem noop_stability:
  assumes "vpc_cidr fl = ''''" and "managedcp_role fl = ''''" and "managedmp_role fl = ''''"
  shows "(GetKind ri \<noteq> machinePool \<and> GetKind ri \<noteq> awsManagedMachinePool \<and> GetKind ri \<noteq> cluster \<longrightarrow>
            fst (capaEdits e fl ri fnd) = Inr ri)
       \<and> (GetKind ri = awsManagedMachinePool \<longrightarrow>
            fst (capaEdits e fl ri fnd) = managedMPScaling ri (min_node_count fl) (max_node_count fl))
       \<and> (GetKind ri = awsManagedMachinePool \<and> fst (capaEdits e fl ri fnd) = Inr ri' \<longrightarrow>
            NestedFieldNoCopy ri' [''spec'', ''scaling'']
              = Some (JMap [(''minSize'', JInt (min_node_count fl)),
                            (''maxSize'', JInt (max_node_count fl))])
            \<and> (\<forall>k. k \<noteq> ''scaling'' \<longrightarrow>
                  NestedFieldNoCopy ri' [''spec'', k] = NestedFieldNoCopy ri [''spec'', k])
            \<and> (\<forall>k. k \<noteq> ''spec'' \<longrightarrow> map_of ri' k = map_of ri k))
       \<and> (GetKind ri \<noteq> ''KubevirtMachineTemplate'' \<longrightarrow> capkEdits ri = Inr ri)
       \<and> (GetKind ri = ''KubevirtMachineTemplate'' \<longrightarrow> capkEdits ri = setBootstrapCheckStrategy ri)
       \<and> (GetKind ri = ''KubevirtMachineTemplate'' \<and> capkEdits ri = Inr ri' \<longrightarrow>
            NestedFieldNoCopy ri'
              [''spec'', ''template'', ''spec'', ''virtualMachineBootstrapCheck'', ''checkStrategy'']
              = Some (JString ''none'')
            \<and> (\<forall>k. k \<noteq> ''spec'' \<longrightarrow> map_of ri' k = map_of ri k))
       \<and> (\<forall>inp ris derr written.
             readAll e = Inr inp \<and> decode e inp = (ris, derr)
             \<and> (\<forall>d b. marshal e d = Inr b \<longrightarrow> b \<noteq> [])
             \<and> (\<forall>d\<in>set ris. GetKind d \<noteq> machinePool \<and> GetKind d \<noteq> awsManagedMachinePool
                               \<and> GetKind d \<noteq> cluster)
             \<and> fst (capaRunE e fl fnd) = (None, written) \<longrightarrow>
             (\<exists>bs. map (marshal e) ris = map Inr bs \<and> written = joinDocuments bs))
       \<and> (\<forall>inp ris derr written.
             readAll e = Inr inp \<and> decode e inp = (ris, derr)
             \<and> (\<forall>d b. marshal e d = Inr b \<longrightarrow> b \<noteq> [])
             \<and> (\<forall>d\<in>set ris. GetKind d \<noteq> ''KubevirtMachineTemplate'')
             \<and> runCAPK e = (None, written) \<longrightarrow>
             (\<exists>bs. map (marshal e) ris = map Inr bs \<and> written = joinDocuments bs))"
proof (intro conjI impI allI)
  assume "GetKind ri \<noteq> machinePool \<and> GetKind ri \<noteq> awsManagedMachinePool \<and> GetKind ri \<noteq> cluster"
  with assms show "fst (capaEdits e fl ri fnd) = Inr ri"
    by (intro capaEdits_untouched) simp_all
next
  assume "GetKind ri = awsManagedMachinePool"
  with assms show "fst (capaEdits e fl ri fnd)
      = managedMPScaling ri (min_node_count fl) (max_node_count fl)"
    by (intro capaEdits_scaling_only) simp_all
next
  assume a: "GetKind ri = awsManagedMachinePool \<and> fst (capaEdits e fl ri fnd) = Inr ri'"
  with assms have sc: "managedMPScaling ri (min_node_count fl) (max_node_count fl) = Inr ri'"
    using capaEdits_scaling_only [of ri fl e fnd] by simp
  then show "NestedFieldNoCopy ri' [''spec'', ''scaling'']
              = Some (JMap [(''minSize'', JInt (min_node_count fl)),
                            (''maxSize'', JInt (max_node_count fl))])"
    by (rule managedMPScaling_scaling)
  from sc have w: "SetNestedField ri (JMap [(''minSize'', JInt (min_node_count fl)),
                                            (''maxSize'', JInt (max_node_count fl))])
                     [''spec'', ''scaling''] = Inr ri'"
    by (simp add: managedMPScaling_def SetNestedMap_def)
  { fix k :: string assume "k \<noteq> ''scaling''"
    with w show "NestedFieldNoCopy ri' [''spec'', k] = NestedFieldNoCopy ri [''spec'', k]"
      by (rule SetNestedField_sibling) }
  { fix k :: string assume "k \<noteq> ''spec''"
    with w show "map_of ri' k = map_of ri k"
      by (rule SetNestedField_frame) }
next
  assume "GetKind ri \<noteq> ''KubevirtMachineTemplate''"
  then show "capkEdits ri = Inr ri" by (simp add: capkEdits_def)
next
  assume "GetKind ri = ''KubevirtMachineTemplate''"
  then show "capkEdits ri = setBootstrapCheckStrategy ri" by (simp add: capkEdits_def)
next
  assume a: "GetKind ri = ''KubevirtMachineTemplate'' \<and> capkEdits ri = Inr ri'"
  then have "setBootstrapCheckStrategy ri = Inr ri'"
    by (auto simp: capkEdits_def)
  then have w: "SetNestedField ri (JString ''none'')
                  [''spec'', ''template'', ''spec'', ''virtualMachineBootstrapCheck'', ''checkStrategy'']
                = Inr ri'"
    by (simp only: setBootstrapCheckStrategy_def)
  then show "NestedFieldNoCopy ri'
              [''spec'', ''template'', ''spec'', ''virtualMachineBootstrapCheck'', ''checkStrategy'']
              = Some (JString ''none'')"
    by (rule SetNestedField_get)
  { fix k :: string assume "k \<noteq> ''spec''"
    with w show "map_of ri' k = map_of ri k"
      by (rule SetNestedField_frame) }
next
  fix inp ris derr written
  assume a: "readAll e = Inr inp \<and> decode e inp = (ris, derr)
             \<and> (\<forall>d b. marshal e d = Inr b \<longrightarrow> b \<noteq> [])
             \<and> (\<forall>d\<in>set ris. GetKind d \<noteq> machinePool \<and> GetKind d \<noteq> awsManagedMachinePool
                               \<and> GetKind d \<noteq> cluster)
             \<and> fst (capaRunE e fl fnd) = (None, written)"
  then obtain fnd' where pe: "processEach (capaResourceFn e fl) ris (fnd, []) = (None, (fnd', written))"
    unfolding capaRunE_cases
    by (auto simp: ProcessResources_def osStdoutWrite_def split: prod.splits option.splits)
  from processEach_capa [OF pe] obtain ds bs where
    m1: "map (\<lambda>ri. fst (capaEdits e fl ri Map.empty)) ris = map Inr ds" and
    m2: "map (marshal e) ds = map Inr bs" and
    w: "written = foldl appendDocument [] bs"
    by blast
  from a assms have "\<forall>ri\<in>set ris. fst (capaEdits e fl ri Map.empty) = Inr ri"
    by (auto intro: capaEdits_untouched)
  from map_untouched [OF this m1] have ds: "ds = ris" .
  from a have ne: "\<forall>d b. marshal e d = Inr b \<longrightarrow> b \<noteq> []" by simp
  from marshalled_nonempty [OF ne m2] w have "written = joinDocuments bs"
    by (simp add: appendAll_join)
  with m2 ds show "\<exists>bs. map (marshal e) ris = map Inr bs \<and> written = joinDocuments bs"
    by auto
next
  fix inp ris derr written
  assume a: "readAll e = Inr inp \<and> decode e inp = (ris, derr)
             \<and> (\<forall>d b. marshal e d = Inr b \<longrightarrow> b \<noteq> [])
             \<and> (\<forall>d\<in>set ris. GetKind d \<noteq> ''KubevirtMachineTemplate'')
             \<and> runCAPK e = (None, written)"
  then have pe: "processEach (capkResourceFn e) ris [] = (None, written)"
    unfolding runCAPK_cases
    by (auto simp: ProcessResources_def osStdoutWrite_def split: prod.splits option.splits)
  from processEach_capk [OF pe] obtain ds bs where
    m1: "map capkEdits ris = map Inr ds" and
    m2: "map (marshal e) ds = map Inr bs" and
    w: "written = foldl appendDocument [] bs"
    by blast
  from a have "\<forall>ri\<in>set ris. capkEdits ri = Inr ri"
    by (simp add: capkEdits_def)
  from map_untouched [OF this m1] have ds: "ds = ris" .
  from a have ne: "\<forall>d b. marshal e d = Inr b \<longrightarrow> b \<noteq> []" by simp
  from marshalled_nonempty [OF ne m2] w have "written = joinDocuments bs"
    by (simp add: appendAll_join)
  with m2 ds show "\<exists>bs. map (marshal e) ris = map Inr bs \<and> written = joinDocuments bs"
    by auto
qed

theorem noop_stability_witness:
  "vpc_cidr defaultFlags = '''' \<and> managedcp_role defaultFlags = '''' \<and> managedmp_role defaultFlags = ''''
   \<and> GetKind cpDoc = ''AWSManagedControlPlane''
   \<and> fst (capaEdits (exampleEnv ''plain'') defaultFlags cpDoc Map.empty) = Inr cpDoc
   \<and> GetKind configMapDoc = ''ConfigMap''
   \<and> capkEdits configMapDoc = Inr configMapDoc
   \<and> GetKind ampDoc = ''AWSManagedMachinePool''
   \<and> fst (capaEdits (exampleEnv ''plain'') defaultFlags ampDoc Map.empty)
       = Inr [(''kind'', JString ''AWSManagedMachinePool''),
              (''metadata'', JMap [(''name'', JString ''pool''), (''namespace'', JString ''default'')]),
              (''spec'', JMap [(''instanceType'', JString ''t3.large''),
                               (''scaling'', JMap [(''minSize'', JInt 1), (''maxSize'', JInt 6)])])]
   \<and> NestedFieldNoCopy
         [(''kind'', JString ''AWSManagedMachinePool''),
          (''metadata'', JMap [(''name'', JString ''pool''), (''namespace'', JString ''default'')]),
          (''spec'', JMap [(''instanceType'', JString ''t3.large''),
                           (''scaling'', JMap [(''minSize'', JInt 1), (''maxSize'', JInt 6)])])]
         [''spec'', ''scaling'']
       = Some (JMap [(''minSize'', JInt 1), (''maxSize'', JInt 6)])
   \<and> GetKind kvDoc = ''KubevirtMachineTemplate''
   \<and> capkEdits kvDoc
       = Inr [(''kind'', JString ''KubevirtMachineTemplate''),
              (''metadata'', JMap [(''name'', JString ''kv''), (''namespace'', JString ''default'')]),
              (''spec'', JMap [(''template'', JMap [(''spec'', JMap [(''virtualMachineBootstrapCheck'',
                          JMap [(''checkStrategy'', JString ''none'')])])])])]
   \<and> NestedFieldNoCopy
         [(''kind'', JString ''KubevirtMachineTemplate''),
          (''metadata'', JMap [(''name'', JString ''kv''), (''namespace'', JString ''default'')]),
          (''spec'', JMap [(''template'', JMap [(''spec'', JMap [(''virtualMachineBootstrapCheck'',
                      JMap [(''checkStrategy'', JString ''none'')])])])])]
         [''spec'', ''template'', ''spec'', ''virtualMachineBootstrapCheck'', ''checkStrategy'']
       = Some (JString ''none'')"
proof -
  have f0: "vpc_cidr defaultFlags = ''''" "managedcp_role defaultFlags = ''''"
    "managedmp_role defaultFlags = ''''"
    by (simp_all add: defaultFlags_def)
  note th = noop_stability [OF f0]
  have k: "GetKind cpDoc = ''AWSManagedControlPlane''" "GetKind configMapDoc = ''ConfigMap''"
    "GetKind ampDoc = ''AWSManagedMachinePool''" "GetKind kvDoc = ''KubevirtMachineTemplate''"
    by (simp_all add: GetKind_def cpDoc_def configMapDoc_def ampDoc_def kvDoc_def)
  have 1: "fst (capaEdits (exampleEnv ''plain'') defaultFlags cpDoc Map.empty) = Inr cpDoc"
    using th [where ri = cpDoc and e = "exampleEnv ''plain''" and fnd = Map.empty, THEN conjunct1] k
    by (simp add: kind_defs)
  have 2: "capkEdits configMapDoc = Inr configMapDoc"
    using th [where ri = configMapDoc, THEN conjunct2, THEN conjunct2, THEN conjunct2, THEN conjunct1] k
    by simp
  have 3: "fst (capaEdits (exampleEnv ''plain'') defaultFlags ampDoc Map.empty)
       = Inr [(''kind'', JString ''AWSManagedMachinePool''),
              (''metadata'', JMap [(''name'', JString ''pool''), (''namespace'', JString ''default'')]),
              (''spec'', JMap [(''instanceType'', JString ''t3.large''),
                               (''scaling'', JMap [(''minSize'', JInt 1), (''maxSize'', JInt 6)])])]"
    by (simp add: eval_defs)
  have 4: "NestedFieldNoCopy
         [(''kind'', JString ''AWSManagedMachinePool''),
          (''metadata'', JMap [(''name'', JString ''pool''), (''namespace'', JString ''default'')]),
          (''spec'', JMap [(''instanceType'', JString ''t3.large''),
                           (''scaling'', JMap [(''minSize'', JInt 1), (''maxSize'', JInt 6)])])]
         [''spec'', ''scaling'']
       = Some (JMap [(''minSize'', JInt 1), (''maxSize'', JInt 6)])"
    using th [where ri = ampDoc and e = "exampleEnv ''plain''" and fnd = Map.empty,
              THEN conjunct2, THEN conjunct2, THEN conjunct1] k 3
    by (simp add: kind_defs defaultFlags_def)
  have 5: "capkEdits kvDoc
       = Inr [(''kind'', JString ''KubevirtMachineTemplate''),
              (''metadata'', JMap [(''name'', JString ''kv''), (''namespace'', JString ''default'')]),
              (''spec'', JMap [(''template'', JMap [(''spec'', JMap [(''virtualMachineBootstrapCheck'',
                          JMap [(''checkStrategy'', JString ''none'')])])])])]"
    by (simp add: eval_defs)
  have 6: "NestedFieldNoCopy
         [(''kind'', JString ''KubevirtMachineTemplate''),
          (''metadata'', JMap [(''name'', JString ''kv''), (''namespace'', JString ''default'')]),
          (''spec'', JMap [(''template'', JMap [(''spec'', JMap [(''virtualMachineBootstrapCheck'',
                      JMap [(''checkStrategy'', JString ''none'')])])])])]
         [''spec'', ''template'', ''spec'', ''virtualMachineBootstrapCheck'', ''checkStrategy'']
       = Some (JString ''none'')"
    using th [where ri = kvDoc,
              THEN conjunct2, THEN conjunct2, THEN conjunct2, THEN conjunct2, THEN conjunct2,
              THEN conjunct1] k 5
    by simp
  from f0 k 1 2 3 4 5 6 show ?thesis by (intro conjI)
qed

text \<open>
  The claim as the specification states it fails: with every flag at its default, the run
  over a \<open>ConfigMap\<close> and an \<open>AWSManagedMachinePool\<close> succeeds and replaces the
  \<open>spec.scaling\<close> of the pool (3, 4 and a third field) by \<open>{minSize: 1, maxSize: 6}\<close>;
  and \<open>capk\<close>, which has no flag at all, sets the \<open>checkStrategy\<close> of a
  \<open>KubevirtMachineTemplate\<close> from \<open>ssh\<close> to \<open>none\<close>.
\<close>

theorem noop_stability_counterexample:
  "runCAPA (exampleEnv ''pools'') defaultFlags
     = (None, ''kind: ConfigMap'' @ [CHR 0x0A] @ ''---'' @ [CHR 0x0A]
                @ ''kind: AWSManagedMachinePool'' @ [CHR 0x0A])
   \<and> NestedFieldNoCopy ampDoc [''spec'', ''scaling'']
       = Some (JMap [(''minSize'', JInt 3), (''maxSize'', JInt 4), (''keep'', JBool True)])
   \<and> fst (capaEdits (exampleEnv ''pools'') defaultFlags ampDoc NewCmdCAPA)
       = Inr [(''kind'', JString ''AWSManagedMachinePool''),
              (''metadata'', JMap [(''name'', JString ''pool''), (''namespace'', JString ''default'')]),
              (''spec'', JMap [(''instanceType'', JString ''t3.large''),
                               (''scaling'', JMap [(''minSize'', JInt 1), (''maxSize'', JInt 6)])])]
   \<and> runCAPK (exampleEnv ''kubevirt'')
       = (None, ''kind: ConfigMap'' @ [CHR 0x0A] @ ''---'' @ [CHR 0x0A]
                  @ ''kind: KubevirtMachineTemplate'' @ [CHR 0x0A])
   \<and> capkEdits kvDoc
       = Inr [(''kind'', JString ''KubevirtMachineTemplate''),
              (''metadata'', JMap [(''name'', JString ''kv''), (''namespace'', JString ''default'')]),
              (''spec'', JMap [(''template'', JMap [(''spec'', JMap [(''virtualMachineBootstrapCheck'',
                          JMap [(''checkStrategy'', JString ''none'')])])])])]"
  by (simp add: eval_defs)

section \<open>C2: the scenario of a \<open>MachinePool\<close> and a \<open>Cluster\<close>\<close>

text \<open>
  C2. With the bounds 2 and 5 and no role, the callback calls \<open>clusterAnnotations\<close> on
  the \<open>Cluster\<close> document with the empty role, whatever the environment and the
  \<open>isFound\<close> map: the document handed to the encoder has gained
  \<open>metadata.annotations\<close> with the key \<open>eks.amazonaws.com/controlplane-role\<close> and the
  empty string as its value, where the decoded document had no annotations. The run over
  the two documents succeeds (with the \<open>SetMPConfiguration\<close> of the examples).
\<close>

theorem scenario_cluster_document:
  "capaEdits e (defaultFlags\<lparr>min_node_count := 2, max_node_count := 5\<rparr>) clusterDoc fnd
     = (Inr [(''kind'', JString ''Cluster''),
             (''metadata'', JMap [(''name'', JString ''c''), (''namespace'', JString ''default''),
                                  (''annotations'',
                                   JMap [(''eks.amazonaws.com/controlplane-role'', JString '''')])])],
        fnd(cluster \<mapsto> True))
   \<and> NestedFieldNoCopy clusterDoc [''metadata'', ''annotations''] = None
   \<and> runCAPA (exampleEnv ''machinepool-and-cluster'')
        (defaultFlags\<lparr>min_node_count := 2, max_node_count := 5\<rparr>)
       = (None, ''kind: MachinePool'' @ [CHR 0x0A] @ ''---'' @ [CHR 0x0A] @ ''kind: Cluster'' @ [CHR 0x0A])"
  by (simp add: eval_defs)

section \<open>C8: a path through a value that is not a mapping\<close>

text \<open>A cluster goes through the fourth block only.\<close>

lemma capaEdits_cluster:
  assumes "GetKind ri = cluster"
  shows "fst (capaEdits e fl ri fnd) = fst (visitCluster fl ri Map.empty)"
proof -
  from assms have "GetKind ri \<noteq> awsManagedControlPlane" "GetKind ri \<noteq> machinePool"
    "GetKind ri \<noteq> awsManagedMachinePool"
    by (simp_all add: kind_defs)
  then show ?thesis
    by (simp add: capaEdits_unfold visitControlPlane_other visitMachinePool_other
          visitManagedMachinePool_other)
qed

lemma capaRunE_fails_on:
  assumes ed: "\<And>f. fst (capaEdits e fl ri f) = Inl er"
      and rd: "readAll e = Inr inp" and dec: "decode e inp = (ris, derr)" and mem: "ri \<in> set ris"
  shows "\<exists>err. fst (capaRunE e fl fnd) = (Some err, [])"
proof -
  have "\<exists>err. fst (ProcessResources (decode e) inp (capaResourceFn e fl) (fnd, [])) = Some err"
    using dec mem
    by (rule ProcessResources_fails) (rule capaResourceFn_fails [where err = er], rule ed)
  with rd show ?thesis using capaRunE_fails by blast
qed

lemma runCAPK_fails_on:
  assumes ed: "capkEdits ri = Inl er"
      and rd: "readAll e = Inr inp" and dec: "decode e inp = (ris, derr)" and mem: "ri \<in> set ris"
  shows "\<exists>err. runCAPK e = (Some err, [])"
proof -
  have "\<exists>err. fst (ProcessResources (decode e) inp (capkResourceFn e) []) = Some err"
    using dec mem
    by (rule ProcessResources_fails) (rule capkResourceFn_fails [OF ed])
  with rd show ?thesis using runCAPK_fails by blast
qed

text \<open>
  C8. When a proper, non-empty prefix of the path of a write resolves to a value that is
  not a mapping (a string, a number, a boolean, null or a sequence), \<open>SetNestedField\<close>
  returns the error that names this prefix: it does not panic and it returns no document.
  This holds at every write of the two commands, and the run then ends with an error and
  nothing on standard output, whatever the \<open>isFound\<close> map and the other documents of the
  stream:
  \<^item> \<open>setBootstrapCheckStrategy\<close> on a \<open>KubevirtMachineTemplate\<close>, in every run of
    \<open>capk\<close>;
  \<^item> \<open>managedCPCIDR\<close> on an \<open>AWSManagedControlPlane\<close>, in every run with the CIDR
    requested, and \<open>managedCPRole\<close>, in every run with the control-plane role requested;
  \<^item> \<open>managedMPScaling\<close> and \<open>managedMPRole\<close> on an \<open>AWSManagedMachinePool\<close>, in
    every run (the scaling is written whatever the flags are, and fails first);
  \<^item> \<open>clusterAnnotations\<close> on a \<open>Cluster\<close>, in every run.
  The write of \<open>SetMPConfiguration\<close> on a \<open>MachinePool\<close> is not among the source
  files.
\<close>

theorem fail_fast_on_malformed_path:
  assumes "0 < n" and "n < length path" and "NestedFieldNoCopy ri (take n path) = Some x"
      and "\<forall>y. x \<noteq> JMap y"
  shows "SetNestedField ri v path = Inl (NotAMap (take n path))
     \<and> (path = [''spec'', ''template'', ''spec'', ''virtualMachineBootstrapCheck'', ''checkStrategy'']
          \<and> GetKind ri = ''KubevirtMachineTemplate'' \<longrightarrow>
          capkEdits ri = Inl (NotAMap (take n path))
          \<and> (\<forall>e inp ris derr. readAll e = Inr inp \<and> decode e inp = (ris, derr) \<and> ri \<in> set ris \<longrightarrow>
                (\<exists>err. runCAPK e = (Some err, []))))
     \<and> (path = [''spec'', ''roleName''] \<and> GetKind ri = awsManagedControlPlane \<longrightarrow>
          managedCPRole ri role = Inl (NotAMap [''spec''])
          \<and> (\<forall>e fl fnd inp ris derr. managedcp_role fl \<noteq> '''' \<and> readAll e = Inr inp
                 \<and> decode e inp = (ris, derr) \<and> ri \<in> set ris \<longrightarrow>
                (\<exists>err. fst (capaRunE e fl fnd) = (Some err, []))))
     \<and> (path = [''spec'', ''network''] \<and> GetKind ri = awsManagedControlPlane \<longrightarrow>
          managedCPCIDR ri c = Inl (NotAMap [''spec''])
          \<and> (\<forall>e fl fnd inp ris derr. vpc_cidr fl \<noteq> '''' \<and> readAll e = Inr inp
                 \<and> decode e inp = (ris, derr) \<and> ri \<in> set ris \<longrightarrow>
                (\<exists>err. fst (capaRunE e fl fnd) = (Some err, []))))
     \<and> (path = [''spec'', ''scaling''] \<and> GetKind ri = awsManagedMachinePool \<longrightarrow>
          managedMPScaling ri lo hi = Inl (NotAMap [''spec''])
          \<and> (\<forall>e fl fnd inp ris derr. readAll e = Inr inp
                 \<and> decode e inp = (ris, derr) \<and> ri \<in> set ris \<longrightarrow>
                (\<exists>err. fst (capaRunE e fl fnd) = (Some err, []))))
     \<and> (path = [''spec'', ''roleName''] \<and> GetKind ri = awsManagedMachinePool \<longrightarrow>
          managedMPRole ri role = Inl (NotAMap [''spec''])
          \<and> (\<forall>e fl fnd inp ris derr. readAll e = Inr inp
                 \<and> decode e inp = (ris, derr) \<and> ri \<in> set ris \<longrightarrow>
                (\<exists>err. fst (capaRunE e fl fnd) = (Some err, []))))
     \<and> (path = [''metadata'', ''annotations'', controlplaneRoleAnnotation] \<and> GetKind ri = cluster \<longrightarrow>
          clusterAnnotations ri role = Inl (NotAMap (take n path))
          \<and> (\<forall>e fl fnd inp ris derr. readAll e = Inr inp
                 \<and> decode e inp = (ris, derr) \<and> ri \<in> set ris \<longrightarrow>
                (\<exists>err. fst (capaRunE e fl fnd) = (Some err, []))))"
proof -
  note blocked = SetNestedField_blocked [OF assms]
  have c0: "SetNestedField ri v path = Inl (NotAMap (take n path))"
    by (rule blocked)
  have c1: "path = [''spec'', ''template'', ''spec'', ''virtualMachineBootstrapCheck'', ''checkStrategy'']
          \<and> GetKind ri = ''KubevirtMachineTemplate'' \<longrightarrow>
          capkEdits ri = Inl (NotAMap (take n path))
          \<and> (\<forall>e inp ris derr. readAll e = Inr inp \<and> decode e inp = (ris, derr) \<and> ri \<in> set ris \<longrightarrow>
                (\<exists>err. runCAPK e = (Some err, [])))"
  proof (intro impI)
    assume a: "path = [''spec'', ''template'', ''spec'', ''virtualMachineBootstrapCheck'', ''checkStrategy'']
          \<and> GetKind ri = ''KubevirtMachineTemplate''"
    then have ed: "capkEdits ri = Inl (NotAMap (take n path))"
      using blocked [of "JString ''none''"]
      by (simp add: capkEdits_def setBootstrapCheckStrategy_def)
    have "\<exists>err. runCAPK e = (Some err, [])"
      if "readAll e = Inr inp \<and> decode e inp = (ris, derr) \<and> ri \<in> set ris" for e inp ris derr
      using that by (intro runCAPK_fails_on [OF ed, of e inp ris derr]) simp_all
    with ed show "capkEdits ri = Inl (NotAMap (take n path))
          \<and> (\<forall>e inp ris derr. readAll e = Inr inp \<and> decode e inp = (ris, derr) \<and> ri \<in> set ris \<longrightarrow>
                (\<exists>err. runCAPK e = (Some err, [])))"
      by blast
  qed
  have sp: "map_of ri ''spec'' = Some x" if "path = [''spec'', g]" for g
    using that assms by (cases n) auto
  have cp: "fst (capaEdits e fl ri f) = Inl (NotAMap [''spec''])"
    if "path = [''spec'', g]" "GetKind ri = awsManagedControlPlane"
       "vpc_cidr fl \<noteq> '''' \<or> managedcp_role fl \<noteq> ''''" for g e fl f
    using that(2,3) sp [OF that(1)] assms(4) by (rule capaEdits_blocked)
  have amp: "fst (capaEdits e fl ri f) = Inl (NotAMap [''spec''])"
    if "path = [''spec'', g]" "GetKind ri = awsManagedMachinePool" for g e fl f
    using that(2) spec_scalar_blocks [OF sp [OF that(1)] assms(4)]
    by (simp add: capaEdits_managedMachinePool visitManagedMachinePool_def managedMPScaling_def
          SetNestedMap_def)
  have c2: "path = [''spec'', ''roleName''] \<and> GetKind ri = awsManagedControlPlane \<longrightarrow>
          managedCPRole ri role = Inl (NotAMap [''spec''])
          \<and> (\<forall>e fl fnd inp ris derr. managedcp_role fl \<noteq> '''' \<and> readAll e = Inr inp
                 \<and> decode e inp = (ris, derr) \<and> ri \<in> set ris \<longrightarrow>
                (\<exists>err. fst (capaRunE e fl fnd) = (Some err, [])))"
  proof (intro impI)
    assume a: "path = [''spec'', ''roleName''] \<and> GetKind ri = awsManagedControlPlane"
    then have ed: "managedCPRole ri role = Inl (NotAMap [''spec''])"
      using spec_scalar_blocks [OF sp assms(4)] by (simp add: managedCPRole_def)
    have "\<exists>err. fst (capaRunE e fl fnd) = (Some err, [])"
      if "managedcp_role fl \<noteq> '''' \<and> readAll e = Inr inp
                 \<and> decode e inp = (ris, derr) \<and> ri \<in> set ris" for e fl fnd inp ris derr
      using that a
      by (intro capaRunE_fails_on [where ri = ri and er = "NotAMap [''spec'']" and inp = inp
              and ris = ris and derr = derr] cp [where g = "''roleName''"]) simp_all
    with ed show "managedCPRole ri role = Inl (NotAMap [''spec''])
          \<and> (\<forall>e fl fnd inp ris derr. managedcp_role fl \<noteq> '''' \<and> readAll e = Inr inp
                 \<and> decode e inp = (ris, derr) \<and> ri \<in> set ris \<longrightarrow>
                (\<exists>err. fst (capaRunE e fl fnd) = (Some err, [])))"
      by blast
  qed
  have c3: "path = [''spec'', ''network''] \<and> GetKind ri = awsManagedControlPlane \<longrightarrow>
          managedCPCIDR ri c = Inl (NotAMap [''spec''])
          \<and> (\<forall>e fl fnd inp ris derr. vpc_cidr fl \<noteq> '''' \<and> readAll e = Inr inp
                 \<and> decode e inp = (ris, derr) \<and> ri \<in> set ris \<longrightarrow>
                (\<exists>err. fst (capaRunE e fl fnd) = (Some err, [])))"
  proof (intro impI)
    assume a: "path = [''spec'', ''network''] \<and> GetKind ri = awsManagedControlPlane"
    then have ed: "managedCPCIDR ri c = Inl (NotAMap [''spec''])"
      using spec_scalar_blocks [OF sp assms(4)] by (simp add: managedCPCIDR_def SetNestedMap_def)
    have "\<exists>err. fst (capaRunE e fl fnd) = (Some err, [])"
      if "vpc_cidr fl \<noteq> '''' \<and> readAll e = Inr inp
                 \<and> decode e inp = (ris, derr) \<and> ri \<in> set ris" for e fl fnd inp ris derr
      using that a
      by (intro capaRunE_fails_on [where ri = ri and er = "NotAMap [''spec'']" and inp = inp
              and ris = ris and derr = derr] cp [where g = "''network''"]) simp_all
    with ed show "managedCPCIDR ri c = Inl (NotAMap [''spec''])
          \<and> (\<forall>e fl fnd inp ris derr. vpc_cidr fl \<noteq> '''' \<and> readAll e = Inr inp
                 \<and> decode e inp = (ris, derr) \<and> ri \<in> set ris \<longrightarrow>
                (\<exists>err. fst (capaRunE e fl fnd) = (Some err, [])))"
      by blast
  qed
  have c4: "path = [''spec'', ''scaling''] \<and> GetKind ri = awsManagedMachinePool \<longrightarrow>
          managedMPScaling ri lo hi = Inl (NotAMap [''spec''])
          \<and> (\<forall>e fl fnd inp ris derr. readAll e = Inr inp
                 \<and> decode e inp = (ris, derr) \<and> ri \<in> set ris \<longrightarrow>
                (\<exists>err. fst (capaRunE e fl fnd) = (Some err, [])))"
  proof (intro impI)
    assume a: "path = [''spec'', ''scaling''] \<and> GetKind ri = awsManagedMachinePool"
    then have ed: "managedMPScaling ri lo hi = Inl (NotAMap [''spec''])"
      using spec_scalar_blocks [OF sp assms(4)] by (simp add: managedMPScaling_def SetNestedMap_def)
    have "\<exists>err. fst (capaRunE e fl fnd) = (Some err, [])"
      if "readAll e = Inr inp \<and> decode e inp = (ris, derr) \<and> ri \<in> set ris"
      for e fl fnd inp ris derr
      using that a
      by (intro capaRunE_fails_on [where ri = ri and er = "NotAMap [''spec'']" and inp = inp
              and ris = ris and derr = derr] amp [where g = "''scaling''"]) simp_all
    with ed show "managedMPScaling ri lo hi = Inl (NotAMap [''spec''])
          \<and> (\<forall>e fl fnd inp ris derr. readAll e = Inr inp
                 \<and> decode e inp = (ris, derr) \<and> ri \<in> set ris \<longrightarrow>
                (\<exists>err. fst (capaRunE e fl fnd) = (Some err, [])))"
      by blast
  qed
  have c5: "path = [''spec'', ''roleName''] \<and> GetKind ri = awsManagedMachinePool \<longrightarrow>
          managedMPRole ri role = Inl (NotAMap [''spec''])
          \<and> (\<forall>e fl fnd inp ris derr. readAll e = Inr inp
                 \<and> decode e inp = (ris, derr) \<and> ri \<in> set ris \<longrightarrow>
                (\<exists>err. fst (capaRunE e fl fnd) = (Some err, [])))"
  proof (intro impI)
    assume a: "path = [''spec'', ''roleName''] \<and> GetKind ri = awsManagedMachinePool"
    then have ed: "managedMPRole ri role = Inl (NotAMap [''spec''])"
      using spec_scalar_blocks [OF sp assms(4)] by (simp add: managedMPRole_def)
    have "\<exists>err. fst (capaRunE e fl fnd) = (Some err, [])"
      if "readAll e = Inr inp \<and> decode e inp = (ris, derr) \<and> ri \<in> set ris"
      for e fl fnd inp ris derr
      using that a
      by (intro capaRunE_fails_on [where ri = ri and er = "NotAMap [''spec'']" and inp = inp
              and ris = ris and derr = derr] amp [where g = "''roleName''"]) simp_all
    with ed show "managedMPRole ri role = Inl (NotAMap [''spec''])
          \<and> (\<forall>e fl fnd inp ris derr. readAll e = Inr inp
                 \<and> decode e inp = (ris, derr) \<and> ri \<in> set ris \<longrightarrow>
                (\<exists>err. fst (capaRunE e fl fnd) = (Some err, [])))"
      by blast
  qed
  have c6: "path = [''metadata'', ''annotations'', controlplaneRoleAnnotation] \<and> GetKind ri = cluster \<longrightarrow>
          clusterAnnotations ri role = Inl (NotAMap (take n path))
          \<and> (\<forall>e fl fnd inp ris derr. readAll e = Inr inp
                 \<and> decode e inp = (ris, derr) \<and> ri \<in> set ris \<longrightarrow>
                (\<exists>err. fst (capaRunE e fl fnd) = (Some err, [])))"
  proof (intro impI)
    assume a: "path = [''metadata'', ''annotations'', controlplaneRoleAnnotation] \<and> GetKind ri = cluster"
    have ca: "clusterAnnotations ri r = Inl (NotAMap (take n path))" for r
      using a blocked [of "JString r"] by (simp add: clusterAnnotations_def)
    have ed: "fst (capaEdits e fl ri f) = Inl (NotAMap (take n path))" for e fl f
      using a ca [of "managedcp_role fl"] by (simp add: capaEdits_cluster visitCluster_def)
    have "\<exists>err. fst (capaRunE e fl fnd) = (Some err, [])"
      if "readAll e = Inr inp \<and> decode e inp = (ris, derr) \<and> ri \<in> set ris"
      for e fl fnd inp ris derr
      using that
      by (intro capaRunE_fails_on [where ri = ri and er = "NotAMap (take n path)" and inp = inp
              and ris = ris and derr = derr] ed) simp_all
    with ca show "clusterAnnotations ri role = Inl (NotAMap (take n path))
          \<and> (\<forall>e fl fnd inp ris derr. readAll e = Inr inp
                 \<and> decode e inp = (ris, derr) \<and> ri \<in> set ris \<longrightarrow>
                (\<exists>err. fst (capaRunE e fl fnd) = (Some err, [])))"
      by blast
  qed
  show ?thesis by (intro conjI c0 c1 c2 c3 c4 c5 c6)
qed

theorem fail_fast_on_malformed_path_witness:
  "NestedFieldNoCopy badKvDoc [''spec''] = Some (JString ''scalar'')
   \<and> GetKind badKvDoc = ''KubevirtMachineTemplate''
   \<and> setBootstrapCheckStrategy badKvDoc = Inl (NotAMap [''spec''])
   \<and> capkEdits badKvDoc = Inl (NotAMap [''spec''])
   \<and> decode (exampleEnv ''bad-kubevirt'') ''bad-kubevirt'' = ([configMapDoc, badKvDoc, kvDoc], None)
   \<and> runCAPK (exampleEnv ''bad-kubevirt'') = (Some (NotAMap [''spec'']), [])
   \<and> NestedFieldNoCopy badCpDoc [''spec''] = Some (JString ''scalar'')
   \<and> managedCPCIDR badCpDoc ''10.0.0.0/16'' = Inl (NotAMap [''spec''])
   \<and> runCAPA (exampleEnv ''bad-cp'') (defaultFlags\<lparr>vpc_cidr := ''10.0.0.0/16''\<rparr>)
       = (Some (NotAMap [''spec'']), [])
   \<and> NestedFieldNoCopy badAmpDoc [''spec''] = Some (JString ''scalar'')
   \<and> managedMPScaling badAmpDoc 1 6 = Inl (NotAMap [''spec''])
   \<and> runCAPA (exampleEnv ''bad-pool'') defaultFlags = (Some (NotAMap [''spec'']), [])
   \<and> NestedFieldNoCopy badClusterDoc [''metadata'', ''annotations''] = Some (JString ''scalar'')
   \<and> clusterAnnotations badClusterDoc '''' = Inl (NotAMap [''metadata'', ''annotations''])
   \<and> runCAPA (exampleEnv ''bad-cluster'') defaultFlags
       = (Some (NotAMap [''metadata'', ''annotations'']), [])"
proof -
  have 1: "NestedFieldNoCopy badKvDoc [''spec''] = Some (JString ''scalar'')"
    "NestedFieldNoCopy badCpDoc [''spec''] = Some (JString ''scalar'')"
    "NestedFieldNoCopy badAmpDoc [''spec''] = Some (JString ''scalar'')"
    "NestedFieldNoCopy badClusterDoc [''metadata'', ''annotations''] = Some (JString ''scalar'')"
    by (simp_all add: badKvDoc_def badCpDoc_def badAmpDoc_def badClusterDoc_def)
  have k: "GetKind badKvDoc = ''KubevirtMachineTemplate''" "GetKind badCpDoc = awsManagedControlPlane"
    "GetKind badAmpDoc = awsManagedMachinePool" "GetKind badClusterDoc = cluster"
    by (simp_all add: GetKind_def badKvDoc_def badCpDoc_def badAmpDoc_def badClusterDoc_def kind_defs)
  have kv: "capkEdits badKvDoc = Inl (NotAMap [''spec''])"
    using fail_fast_on_malformed_path [where n = 1 and ri = badKvDoc and x = "JString ''scalar''"
        and path = "[''spec'', ''template'', ''spec'', ''virtualMachineBootstrapCheck'', ''checkStrategy'']",
        THEN conjunct2, THEN conjunct1] 1 k
    by simp
  have cidr: "managedCPCIDR badCpDoc ''10.0.0.0/16'' = Inl (NotAMap [''spec''])"
    using fail_fast_on_malformed_path [where n = 1 and ri = badCpDoc and x = "JString ''scalar''"
        and path = "[''spec'', ''network'']" and c = "''10.0.0.0/16''",
        THEN conjunct2, THEN conjunct2, THEN conjunct2, THEN conjunct1] 1 k
    by simp
  have sc: "managedMPScaling badAmpDoc 1 6 = Inl (NotAMap [''spec''])"
    using fail_fast_on_malformed_path [where n = 1 and ri = badAmpDoc and x = "JString ''scalar''"
        and path = "[''spec'', ''scaling'']" and lo = 1 and hi = 6,
        THEN conjunct2, THEN conjunct2, THEN conjunct2, THEN conjunct2, THEN conjunct1] 1 k
    by simp
  have an: "clusterAnnotations badClusterDoc '''' = Inl (NotAMap [''metadata'', ''annotations''])"
    using fail_fast_on_malformed_path [where n = 2 and ri = badClusterDoc and x = "JString ''scalar''"
        and path = "[''metadata'', ''annotations'', controlplaneRoleAnnotation]" and role = "''''",
        THEN conjunct2, THEN conjunct2, THEN conjunct2, THEN conjunct2, THEN conjunct2,
        THEN conjunct2] 1 k
    by simp
  have runs: "decode (exampleEnv ''bad-kubevirt'') ''bad-kubevirt'' = ([configMapDoc, badKvDoc, kvDoc], None)"
    "runCAPK (exampleEnv ''bad-kubevirt'') = (Some (NotAMap [''spec'']), [])"
    "runCAPA (exampleEnv ''bad-cp'') (defaultFlags\<lparr>vpc_cidr := ''10.0.0.0/16''\<rparr>)
       = (Some (NotAMap [''spec'']), [])"
    "runCAPA (exampleEnv ''bad-pool'') defaultFlags = (Some (NotAMap [''spec'']), [])"
    "runCAPA (exampleEnv ''bad-cluster'') defaultFlags
       = (Some (NotAMap [''metadata'', ''annotations'']), [])"
    by (simp_all add: eval_defs)
  from kv have sb: "setBootstrapCheckStrategy badKvDoc = Inl (NotAMap [''spec''])"
    using k by (simp add: capkEdits_def)
  from 1 k kv sb cidr sc an runs show ?thesis by simp
qed

section \<open>Facts about the discovery state\<close>

lemma visitControlPlane_found:
  "visitControlPlane fl ri fnd = (x, fnd') \<Longrightarrow>
   found fnd' K \<longleftrightarrow> found fnd K \<or> (GetKind ri = awsManagedControlPlane \<and> K = awsManagedControlPlane)"
  by (auto simp: visitControlPlane_def found_def split: if_splits sum.splits)

lemma visitMachinePool_found:
  "visitMachinePool e fl ri fnd = (x, fnd') \<Longrightarrow>
   found fnd' K \<longleftrightarrow> found fnd K \<or> (GetKind ri = machinePool \<and> K = machinePool)"
  by (auto simp: visitMachinePool_def found_def split: if_splits)

lemma visitManagedMachinePool_found:
  "visitManagedMachinePool fl ri fnd = (x, fnd') \<Longrightarrow>
   found fnd' K \<longleftrightarrow> found fnd K \<or> (GetKind ri = awsManagedMachinePool \<and> K = awsManagedMachinePool)"
  by (auto simp: visitManagedMachinePool_def found_def split: if_splits sum.splits)

lemma visitCluster_found:
  "visitCluster fl ri fnd = (x, fnd') \<Longrightarrow>
   found fnd' K \<longleftrightarrow> found fnd K \<or> (GetKind ri = cluster \<and> K = cluster)"
  by (auto simp: visitCluster_def found_def split: if_splits)

lemma visitMachinePool_kind:
  assumes "\<forall>ri a b ri'. SetMPConfiguration e ri a b = Inr ri' \<longrightarrow> GetKind ri' = GetKind ri"
      and "visitMachinePool e fl ri fnd = (Inr ri', fnd')"
  shows "GetKind ri' = GetKind ri"
  using assms by (auto simp: visitMachinePool_def split: if_splits)

lemma capaEdits_chain:
  obtains (cp) err f1 where
      "visitControlPlane fl ri fnd = (Inl err, f1)" "capaEdits e fl ri fnd = (Inl err, f1)"
  | (mp) r1 f1 err f2 where
      "visitControlPlane fl ri fnd = (Inr r1, f1)" "visitMachinePool e fl r1 f1 = (Inl err, f2)"
      "capaEdits e fl ri fnd = (Inl err, f2)"
  | (amp) r1 f1 r2 f2 err f3 where
      "visitControlPlane fl ri fnd = (Inr r1, f1)" "visitMachinePool e fl r1 f1 = (Inr r2, f2)"
      "visitManagedMachinePool fl r2 f2 = (Inl err, f3)" "capaEdits e fl ri fnd = (Inl err, f3)"
  | (all) r1 f1 r2 f2 r3 f3 where
      "visitControlPlane fl ri fnd = (Inr r1, f1)" "visitMachinePool e fl r1 f1 = (Inr r2, f2)"
      "visitManagedMachinePool fl r2 f2 = (Inr r3, f3)"
      "capaEdits e fl ri fnd = visitCluster fl r3 f3"
proof (cases "visitControlPlane fl ri fnd")
  case p1: (Pair x1 f1)
  show ?thesis
  proof (cases x1)
    case (Inl err)
    with p1 show ?thesis by (intro cp [of err f1]) (simp_all add: capaEdits_def)
  next
    case i1: (Inr r1)
    show ?thesis
    proof (cases "visitMachinePool e fl r1 f1")
      case p2: (Pair x2 f2)
      show ?thesis
      proof (cases x2)
        case (Inl err)
        with p1 i1 p2 show ?thesis by (intro mp [of r1 f1 err f2]) (simp_all add: capaEdits_def)
      next
        case i2: (Inr r2)
        show ?thesis
        proof (cases "visitManagedMachinePool fl r2 f2")
          case p3: (Pair x3 f3)
          show ?thesis
          proof (cases x3)
            case (Inl err)
            with p1 i1 p2 i2 p3 show ?thesis
              by (intro amp [of r1 f1 r2 f2 err f3]) (simp_all add: capaEdits_def)
          next
            case (Inr r3)
            with p1 i1 p2 i2 p3 show ?thesis
              by (intro all [of r1 f1 r2 f2 r3 f3]) (simp_all add: capaEdits_def)
          qed
        qed
      qed
    qed
  qed
qed


lemma capaEdits_found_sub:
  assumes kp: "\<forall>ri a b ri'. SetMPConfiguration e ri a b = Inr ri' \<longrightarrow> GetKind ri' = GetKind ri"
      and ed: "capaEdits e fl ri fnd = (x, fnd')" and f: "found fnd' K"
  shows "found fnd K \<or> (GetKind ri = K
           \<and> (K = awsManagedControlPlane \<or> K = machinePool \<or> K = awsManagedMachinePool \<or> K = cluster))"
proof (cases rule: capaEdits_chain [of fl ri fnd e])
  case (cp err f1)
  with ed f show ?thesis using visitControlPlane_found [of fl ri fnd _ f1 K] by auto
next
  case (mp r1 f1 err f2)
  then have "GetKind r1 = GetKind ri" using visitControlPlane_kind by blast
  with mp ed f show ?thesis
    using visitControlPlane_found [of fl ri fnd _ f1 K] visitMachinePool_found [of e fl r1 f1 _ f2 K]
    by auto
next
  case (amp r1 f1 r2 f2 err f3)
  then have "GetKind r1 = GetKind ri" "GetKind r2 = GetKind r1"
    using visitControlPlane_kind visitMachinePool_kind [OF kp] by blast+
  with amp ed f show ?thesis
    using visitControlPlane_found [of fl ri fnd _ f1 K] visitMachinePool_found [of e fl r1 f1 _ f2 K]
      visitManagedMachinePool_found [of fl r2 f2 _ f3 K]
    by auto
next
  case (all r1 f1 r2 f2 r3 f3)
  then have "GetKind r1 = GetKind ri" "GetKind r2 = GetKind r1" "GetKind r3 = GetKind r2"
    using visitControlPlane_kind visitMachinePool_kind [OF kp] visitManagedMachinePool_kind by blast+
  with all ed f show ?thesis
    using visitControlPlane_found [of fl ri fnd _ f1 K] visitMachinePool_found [of e fl r1 f1 _ f2 K]
      visitManagedMachinePool_found [of fl r2 f2 _ f3 K] visitCluster_found [of fl r3 f3 x fnd' K]
    by auto
qed

lemma capaResourceFn_state:
  "capaResourceFn e fl ri (fnd, out) = (r, (f1, o1)) \<Longrightarrow> \<exists>x. capaEdits e fl ri fnd = (x, f1)"
  by (cases "capaEdits e fl ri fnd")
     (auto simp: capaResourceFn_def split: sum.splits)


lemma processEach_found_sub:
  assumes kp: "\<forall>ri a b ri'. SetMPConfiguration e ri a b = Inr ri' \<longrightarrow> GetKind ri' = GetKind ri"
  shows "processEach (capaResourceFn e fl) ris (fnd, out) = (r, (fnd', out')) \<Longrightarrow> found fnd' K \<Longrightarrow>
     found fnd K \<or> ((K = awsManagedControlPlane \<or> K = machinePool \<or> K = awsManagedMachinePool \<or> K = cluster)
                     \<and> (\<exists>ri\<in>set ris. GetKind ri = K))"
proof (induction ris arbitrary: fnd out)
  case Nil
  then show ?case by simp
next
  case (Cons ri ris)
  obtain r1 f1 o1 where st: "capaResourceFn e fl ri (fnd, out) = (r1, (f1, o1))"
    by (metis prod.exhaust)
  from capaResourceFn_state [OF st] obtain x where ed: "capaEdits e fl ri fnd = (x, f1)" by blast
  have step: "found f1 K \<Longrightarrow> found fnd K \<or> (GetKind ri = K
           \<and> (K = awsManagedControlPlane \<or> K = machinePool \<or> K = awsManagedMachinePool \<or> K = cluster))"
    using capaEdits_found_sub [OF kp ed] .
  show ?case
  proof (cases r1)
    case None
    with st Cons.prems(1) have "processEach (capaResourceFn e fl) ris (f1, o1) = (r, (fnd', out'))"
      by simp
    from Cons.IH [OF this Cons.prems(2)] step show ?thesis by auto
  next
    case (Some err)
    with st Cons.prems(1) have "fnd' = f1" by simp
    with Cons.prems(2) step show ?thesis by auto
  qed
qed

lemma validation_gating:
  assumes "(\<not> found (isFound h) awsManagedControlPlane
              \<and> (vpcCidr h \<noteq> '''' \<or> managedControlplaneRole h \<noteq> ''''))
         \<or> (\<not> found (isFound h) awsManagedMachinePool \<and> managedMachinepoolRole h \<noteq> '''')
         \<or> (\<not> found (isFound h) cluster \<and> managedControlplaneRole h \<noteq> '''')"
  shows "\<exists>err. validation h = Some err"
  using assms by (auto simp: validation_def orElse_def)


section \<open>C3: an intent whose kind is absent from the stream\<close>



lemma ProcessResources_capa_state:
  assumes "decode e inp = (ris, derr)"
      and "ProcessResources (decode e) inp (capaResourceFn e fl) (fnd, []) = (r, (fnd', out))"
  shows "\<exists>r'. processEach (capaResourceFn e fl) ris (fnd, []) = (r', (fnd', out))"
  using assms by (auto simp: ProcessResources_def split: prod.splits option.splits)


text \<open>
  C3, as amended. Take a run of a freshly made \<open>capa\<close> command over a stream with no
  document of kind K, with an intent for K requested: the CIDR or the control-plane role
  for \<open>AWSManagedControlPlane\<close>, the machine-pool role for \<open>AWSManagedMachinePool\<close>,
  the control-plane role for \<open>Cluster\<close> (\<open>SetMPConfiguration\<close> is assumed to keep the
  kind of a document). The run ends with an error and nothing on standard output; when
  \<open>ProcessResources\<close> returns no error, K is not in \<open>isFound\<close> and it is \<open>validation\<close>
  that returns the error. \<open>validation\<close> returns the first check that fails, in its fixed
  order, so the error names K and the intent when no earlier check fails: the CIDR check
  comes first; the control-plane role check applies when no CIDR was requested; the
  machine-pool role check applies when the control-plane checks and the bound check pass.
\<close>

theorem cross_kind_gating:
  assumes kp: "\<forall>ri a b ri'. SetMPConfiguration e ri a b = Inr ri' \<longrightarrow> GetKind ri' = GetKind ri"
      and rd: "readAll e = Inr inp" and dec: "decode e inp = (ris, derr)"
      and absent: "\<forall>ri\<in>set ris. GetKind ri \<noteq> K"
      and req: "(K = awsManagedControlPlane \<and> (vpc_cidr fl \<noteq> '''' \<or> managedcp_role fl \<noteq> ''''))
              \<or> (K = awsManagedMachinePool \<and> managedmp_role fl \<noteq> '''')
              \<or> (K = cluster \<and> managedcp_role fl \<noteq> '''')"
  shows "(\<exists>err. runCAPA e fl = (Some err, []))
       \<and> (\<forall>fnd' out. ProcessResources (decode e) inp (capaResourceFn e fl) (NewCmdCAPA, []) = (None, (fnd', out)) \<longrightarrow>
             \<not> found fnd' K
             \<and> (\<exists>err. validation
                         \<lparr>isFound = fnd',
                          managedControlplaneRole = managedcp_role fl,
                          managedMachinepoolRole = managedmp_role fl,
                          vpcCidr = vpc_cidr fl,
                          minCount = min_node_count fl,
                          maxCount = max_node_count fl\<rparr> = Some err))
       \<and> (\<forall>h. \<not> found (isFound h) awsManagedControlPlane \<and> vpcCidr h \<noteq> '''' \<longrightarrow>
             validation h = Some (ErrorsNew ''failed to get AWSManagedControlPlane for cidr update''))
       \<and> (\<forall>h. \<not> found (isFound h) awsManagedControlPlane \<and> vpcCidr h = ''''
               \<and> managedControlplaneRole h \<noteq> '''' \<longrightarrow>
             validation h = Some (ErrorsNew ''failed to get AWSManagedControlPlane for role configuration''))
       \<and> (\<forall>h. \<not> found (isFound h) awsManagedMachinePool \<and> managedMachinepoolRole h \<noteq> ''''
               \<and> (found (isFound h) awsManagedControlPlane
                    \<or> (vpcCidr h = '''' \<and> managedControlplaneRole h = ''''))
               \<and> sint (minCount h) \<le> sint (maxCount h) \<longrightarrow>
             validation h = Some (ErrorsNew ''failed to get AWSManagedMachinePool for role configuration''))"
proof -
  have nf: "\<not> found fnd' K"
    if "ProcessResources (decode e) inp (capaResourceFn e fl) (NewCmdCAPA, []) = (r, (fnd', out))"
    for r fnd' out
  proof
    assume f: "found fnd' K"
    from ProcessResources_capa_state [OF dec that] obtain r' where
      "processEach (capaResourceFn e fl) ris (NewCmdCAPA, []) = (r', (fnd', out))" by blast
    from processEach_found_sub [OF kp this f] absent show False
      by (auto simp: NewCmdCAPA_def found_def)
  qed
  have val: "\<exists>err. validation
                         \<lparr>isFound = fnd',
                          managedControlplaneRole = managedcp_role fl,
                          managedMachinepoolRole = managedmp_role fl,
                          vpcCidr = vpc_cidr fl,
                          minCount = min_node_count fl,
                          maxCount = max_node_count fl\<rparr> = Some err"
    if "\<not> found fnd' K" for fnd'
    using that req by (intro validation_gating) auto
  have run: "\<exists>err. runCAPA e fl = (Some err, [])"
  proof -
    obtain r fnd' out where
      Pair: "ProcessResources (decode e) inp (capaResourceFn e fl) (NewCmdCAPA, []) = (r, (fnd', out))"
      by (metis prod.exhaust)
    show ?thesis
    proof (cases r)
      case (Some err)
      with Pair rd show ?thesis by (simp add: runCAPA_def capaRunE_cases)
    next
      case None
      with Pair nf [of None fnd' out] have "\<not> found fnd' K" by simp
      from val [OF this] obtain err where "validation
                         \<lparr>isFound = fnd',
                          managedControlplaneRole = managedcp_role fl,
                          managedMachinepoolRole = managedmp_role fl,
                          vpcCidr = vpc_cidr fl,
                          minCount = min_node_count fl,
                          maxCount = max_node_count fl\<rparr> = Some err" by blast
      with Pair None rd show ?thesis by (simp add: runCAPA_def capaRunE_cases)
    qed
  qed
  have v1: "validation h = Some (ErrorsNew ''failed to get AWSManagedControlPlane for cidr update'')"
    if "\<not> found (isFound h) awsManagedControlPlane \<and> vpcCidr h \<noteq> ''''" for h
    using that by (simp add: validation_def orElse_def)
  have v2: "validation h = Some (ErrorsNew ''failed to get AWSManagedControlPlane for role configuration'')"
    if "\<not> found (isFound h) awsManagedControlPlane \<and> vpcCidr h = ''''
               \<and> managedControlplaneRole h \<noteq> ''''" for h
    using that by (simp add: validation_def orElse_def)
  have v3: "validation h = Some (ErrorsNew ''failed to get AWSManagedMachinePool for role configuration'')"
    if "\<not> found (isFound h) awsManagedMachinePool \<and> managedMachinepoolRole h \<noteq> ''''
               \<and> (found (isFound h) awsManagedControlPlane
                    \<or> (vpcCidr h = '''' \<and> managedControlplaneRole h = ''''))
               \<and> sint (minCount h) \<le> sint (maxCount h)" for h
    using that by (auto simp: validation_def orElse_def)
  from run nf val v1 v2 v3 show ?thesis by blast
qed


lemma specSetMPConfiguration_kind:
  "\<forall>ri a b ri'. specSetMPConfiguration ri a b = Inr ri' \<longrightarrow> GetKind ri' = GetKind ri"
  by (auto simp: specSetMPConfiguration_def SetNestedMap_def dest: SetNestedField_kind)

theorem cross_kind_gating_witness:
  "readAll (exampleEnv ''cluster-only'') = Inr ''cluster-only''
   \<and> decode (exampleEnv ''cluster-only'') ''cluster-only'' = ([clusterDoc], None)
   \<and> GetKind clusterDoc = ''Cluster''
   \<and> vpc_cidr (defaultFlags\<lparr>vpc_cidr := ''10.0.0.0/16''\<rparr>) = ''10.0.0.0/16''
   \<and> runCAPA (exampleEnv ''cluster-only'') (defaultFlags\<lparr>vpc_cidr := ''10.0.0.0/16''\<rparr>)
       = (Some (ErrorsNew ''failed to get AWSManagedControlPlane for cidr update''), [])"
proof -
  have kp: "\<forall>ri a b ri'. SetMPConfiguration (exampleEnv ''cluster-only'') ri a b = Inr ri'
              \<longrightarrow> GetKind ri' = GetKind ri"
    using specSetMPConfiguration_kind by (simp add: exampleEnv_def)
  have rd: "readAll (exampleEnv ''cluster-only'') = Inr ''cluster-only''"
    by (simp add: exampleEnv_def)
  have dec: "decode (exampleEnv ''cluster-only'') ''cluster-only'' = ([clusterDoc], None)"
    by (simp add: exampleEnv_def exampleDecode_def)
  have absent: "\<forall>ri\<in>set [clusterDoc]. GetKind ri \<noteq> awsManagedControlPlane"
    by (simp add: GetKind_def clusterDoc_def awsManagedControlPlane_def)
  have req: "(awsManagedControlPlane = awsManagedControlPlane
                \<and> (vpc_cidr (defaultFlags\<lparr>vpc_cidr := ''10.0.0.0/16''\<rparr>) \<noteq> ''''
                     \<or> managedcp_role (defaultFlags\<lparr>vpc_cidr := ''10.0.0.0/16''\<rparr>) \<noteq> ''''))
           \<or> (awsManagedControlPlane = awsManagedMachinePool
                \<and> managedmp_role (defaultFlags\<lparr>vpc_cidr := ''10.0.0.0/16''\<rparr>) \<noteq> '''')
           \<or> (awsManagedControlPlane = cluster
                \<and> managedcp_role (defaultFlags\<lparr>vpc_cidr := ''10.0.0.0/16''\<rparr>) \<noteq> '''')"
    by simp
  from cross_kind_gating [OF kp rd dec absent req] obtain err where
    "runCAPA (exampleEnv ''cluster-only'') (defaultFlags\<lparr>vpc_cidr := ''10.0.0.0/16''\<rparr>)
       = (Some err, [])" by blast
  moreover have "fst (runCAPA (exampleEnv ''cluster-only'') (defaultFlags\<lparr>vpc_cidr := ''10.0.0.0/16''\<rparr>))
       = Some (ErrorsNew ''failed to get AWSManagedControlPlane for cidr update'')"
    by (simp add: eval_defs)
  ultimately show ?thesis using rd dec
    by (simp add: GetKind_def clusterDoc_def)
qed

text \<open>
  The claim as the specification states it fails: over a stream of two \<open>ConfigMap\<close>
  documents, with the machine-pool role requested, the only error returned is the one for
  the CIDR when a CIDR is requested too, and the one for the bounds when the lower bound is
  6 and the upper bound 1. Neither names \<open>AWSManagedMachinePool\<close>.
\<close>

theorem cross_kind_gating_counterexample:
  "decode (exampleEnv ''plain'') ''plain'' = ([configMapDoc, configMapDoc], None)
   \<and> runCAPA (exampleEnv ''plain'')
        (defaultFlags\<lparr>vpc_cidr := ''10.0.0.0/16'', managedmp_role := ''nodes''\<rparr>)
       = (Some (ErrorsNew ''failed to get AWSManagedControlPlane for cidr update''), [])
   \<and> \<not> sublist awsManagedMachinePool ''failed to get AWSManagedControlPlane for cidr update''
   \<and> runCAPA (exampleEnv ''plain'')
        (defaultFlags\<lparr>managedmp_role := ''nodes'', min_node_count := 6, max_node_count := 1\<rparr>)
       = (Some (ErrorsNew ''max node count can't be less than min node count''), [])
   \<and> \<not> sublist awsManagedMachinePool ''max node count can't be less than min node count''"
  by (simp add: eval_defs sublist_Cons_right)


section \<open>C7: determinism of a run, and the scope of the discovery state\<close>













end
